theory Spec2Isabelle
  imports Complex_Main "HOL-Library.Sublist"
begin

section \<open>Data model\<close>

text \<open>
  The bot (class \<open>FaceShapeBot\<close> of \<open>bot.py\<close>) keeps one Python dictionary per chat in
  \<open>self.user_data\<close>. The keys are strings and the values are of mixed types, so a session
  is a partial map from key to a Python value. Key presence matters to the code
  (\<open>if flag in self.user_data[chat_id]\<close>), which is why the session is not a record.
\<close>

datatype val =
    VNone
  | VBool bool
  | VInt int
  | VStr string
  | VBytes "nat list"
  | VList "val list"
  | VDict "(string \<times> val) list"

text \<open>Python truth value of an object, as used by \<open>if x:\<close> and \<open>not x\<close>.\<close>

fun truthy :: "val \<Rightarrow> bool" where
  "truthy VNone = False"
| "truthy (VBool b) = b"
| "truthy (VInt i) = (i \<noteq> 0)"
| "truthy (VStr s) = (s \<noteq> [])"
| "truthy (VBytes bs) = (bs \<noteq> [])"
| "truthy (VList xs) = (xs \<noteq> [])"
| "truthy (VDict kvs) = (kvs \<noteq> [])"

type_synonym session = "string \<rightharpoonup> val"

text \<open>\<open>d.get(k)\<close>: the value, or \<open>None\<close> when the key is absent.\<close>

definition py_get :: "session \<Rightarrow> string \<Rightarrow> val" where
  "py_get d k = (case d k of None \<Rightarrow> VNone | Some v \<Rightarrow> v)"

text \<open>
  The text of every message the modelled handlers send. The source texts are Russian
  sentences or entries of the tables \<open>BOT_MESSAGES\<close> and \<open>PREMIUM_MESSAGES\<close> of the
  configuration module; a constructor stands for one text and carries the values
  that the source formats into it.
\<close>

datatype reply =
    VideoTooLong
  | Feature5Prompt
  | Feature6Prompt
  | UseCommandsHint
  | MenuText
  | StartText
  | AnalysisMethodPrompt "string option"
  | NoPhotoYet
  | NotEnoughCredits int int
  | PremiumFeatures
  | TryCostInfo int int
  | TryHairstylePrompt
  | StripeCompleted int int
  | StripePending
  | StripeCancelled
  | PaymentFailed
  | StripeAlreadyProcessed int
  | StripeProcessed int int
  | StripeSupport
  | ProviderErrorText
  | InvoiceExpired
  | PaymentCanceled
  | PaymentNotCompleted "string option" string
  | PaymentAlreadyProcessed int int
  | PaymentSuccess int int
  | CreditGrantError
  | TransactionStatusError
  | InvoiceUnavailable
  | PaymentInfoNotFound
  | PackageUnknown
  | PaymentProcessingError
  | ProcessingText
  | NoFaceText
  | ErrorText
  | LandmarkPhoto "nat list"
  | AnalysisResult string
  | HairstyleGenerating
  | HairstylePhoto "nat list" int

text \<open>
  One row of the \<open>Transaction\<close> table. Only the columns the handlers read or write
  are kept.
\<close>

record txn =
  tx_user :: int
  tx_amount :: rat
  tx_credits :: int
  tx_status :: string

text \<open>
  The state the handlers act on: the in-memory sessions, the two database tables
  (credit balance per Telegram id, transactions per payment id), and the messages sent
  so far, oldest first, each with the chat it went to.
\<close>

record bot =
  user_data :: "int \<rightharpoonup> session"
  accounts :: "int \<rightharpoonup> int"
  transactions :: "string \<rightharpoonup> txn"
  sent :: "(int \<times> reply) list"

definition send_message :: "int \<Rightarrow> reply \<Rightarrow> bot \<Rightarrow> bot" where
  "send_message chat_id r b = b\<lparr>sent := sent b @ [(chat_id, r)]\<rparr>"

text \<open>
  \<open>self.user_data[chat_id][k] = v\<close>; the callers below have made sure that the chat has
  a session. Without one Python raises \<open>KeyError\<close>, which the callers that can reach
  that case model themselves.
\<close>

definition set_key :: "int \<Rightarrow> string \<Rightarrow> val \<Rightarrow> bot \<Rightarrow> bot" where
  "set_key chat_id k v b =
     (case user_data b chat_id of
        None \<Rightarrow> b
      | Some s \<Rightarrow> b\<lparr>user_data := (user_data b)(chat_id \<mapsto> s(k \<mapsto> v))\<rparr>)"

text \<open>\<open>if chat_id not in self.user_data: self.user_data[chat_id] = {}\<close>\<close>

definition ensure_session :: "int \<Rightarrow> bot \<Rightarrow> bot" where
  "ensure_session chat_id b =
     (case user_data b chat_id of
        None \<Rightarrow> b\<lparr>user_data := (user_data b)(chat_id \<mapsto> Map.empty)\<rparr>
      | Some s \<Rightarrow> b)"

text \<open>The session of a chat, the empty dictionary when there is none.\<close>

definition session_of :: "bot \<Rightarrow> int \<Rightarrow> session" where
  "session_of b chat_id = (case user_data b chat_id of None \<Rightarrow> Map.empty | Some s \<Rightarrow> s)"

section \<open>Credit ledger and transaction table\<close>

text \<open>
  Modelled from the spec: \<open>get_user_credits\<close> of the module \<open>database\<close>, which is not
  part of the sources. Section 4.3 gives \<open>getBalance(userId) -> integer\<close>; a user without
  an account has no credits.
\<close>

definition get_user_credits :: "bot \<Rightarrow> int \<Rightarrow> int" where
  "get_user_credits b chat_id = (case accounts b chat_id of None \<Rightarrow> 0 | Some c \<Rightarrow> c)"

text \<open>
  Modelled from the spec: \<open>update_user_credits\<close> of the module \<open>database\<close>, which is
  not part of the sources. It stores the new balance of the user.
\<close>

definition update_user_credits :: "int \<Rightarrow> int \<Rightarrow> bot \<Rightarrow> bot" where
  "update_user_credits chat_id c b = b\<lparr>accounts := (accounts b)(chat_id \<mapsto> c)\<rparr>"

text \<open>
  Modelled from the spec: \<open>use_credit\<close> of the module \<open>database\<close>, which is not part of
  the sources. Section 4.3: \<open>charge(userId, amount) -> success|InsufficientCredit\<close>, and no
  charge may reduce the balance below zero.
\<close>

definition use_credit :: "int \<Rightarrow> int \<Rightarrow> bot \<Rightarrow> bot \<times> bool" where
  "use_credit chat_id amount b =
     (if amount \<le> get_user_credits b chat_id
      then (update_user_credits chat_id (get_user_credits b chat_id - amount) b, True)
      else (b, False))"

text \<open>
  Modelled from the spec: \<open>create_transaction\<close> of the module \<open>database\<close>, which is not
  part of the sources. Section 3: a transaction is created with status \<open>pending\<close>.
\<close>

definition create_transaction :: "int \<Rightarrow> rat \<Rightarrow> int \<Rightarrow> string \<Rightarrow> bot \<Rightarrow> bot" where
  "create_transaction chat_id amount credits payment_id b =
     b\<lparr>transactions := (transactions b)(payment_id \<mapsto>
          \<lparr>tx_user = chat_id, tx_amount = amount, tx_credits = credits,
           tx_status = ''pending''\<rparr>)\<rparr>"

text \<open>
  Modelled from the spec: \<open>complete_transaction\<close> of the module \<open>database\<close>, which is
  not part of the sources. Section 4.4, step 3: a pending transaction is credited to its
  user and becomes \<open>completed\<close>; terminal states are immutable (section 3), so any other
  transaction, and a missing one, is left alone and the call reports failure.
\<close>

definition complete_transaction :: "string \<Rightarrow> bot \<Rightarrow> bot \<times> bool" where
  "complete_transaction payment_id b =
     (case transactions b payment_id of
        None \<Rightarrow> (b, False)
      | Some t \<Rightarrow>
          if tx_status t = ''pending''
          then (update_user_credits (tx_user t) (get_user_credits b (tx_user t) + tx_credits t)
                  (b\<lparr>transactions := (transactions b)(payment_id \<mapsto> t\<lparr>tx_status := ''completed''\<rparr>)\<rparr>),
                True)
          else (b, False))"

section \<open>Session reset\<close>

text \<open>
  \<open>_reset_all_waiting_states\<close> (lines 4266-4301). A chat without a session gets the
  empty one and nothing else happens. Otherwise each flag of the list that is a key of
  the session is set to \<open>False\<close>, and \<open>current_feature\<close>, when it is a key, is set
  to \<open>None\<close>.
\<close>

definition waiting_flags :: "string list" where
  "waiting_flags =
     [''waiting_for_text_prompt'',
      ''waiting_for_replace_prompt'',
      ''waiting_for_background_prompt'',
      ''waiting_for_style_choice'',
      ''waiting_for_style_image'',
      ''waiting_for_payment_method'',
      ''waiting_for_package_selection'',
      ''waiting_for_hairstyle_selection'']"

fun clear_flags :: "string list \<Rightarrow> session \<Rightarrow> session" where
  "clear_flags [] s = s"
| "clear_flags (flag # flags) s =
     clear_flags flags (if s flag \<noteq> None then s(flag \<mapsto> VBool False) else s)"

definition reset_session :: "session \<Rightarrow> session" where
  "reset_session s =
     (let s1 = clear_flags waiting_flags s
      in if s1 ''current_feature'' \<noteq> None then s1(''current_feature'' \<mapsto> VNone) else s1)"

definition reset_all_waiting_states :: "int \<Rightarrow> bot \<Rightarrow> bot" where
  "reset_all_waiting_states chat_id b =
     (case user_data b chat_id of
        None \<Rightarrow> b\<lparr>user_data := (user_data b)(chat_id \<mapsto> Map.empty)\<rparr>
      | Some s \<Rightarrow> b\<lparr>user_data := (user_data b)(chat_id \<mapsto> reset_session s)\<rparr>)"

section \<open>Update handlers\<close>

text \<open>
  A handler that ends by calling another handler of the bot returns the name of that
  handler; \<open>None\<close> means that it returned without handing the update on.
\<close>

datatype call =
    ProcessVideo
  | HandlePaymentMethodSelection
  | HandlePackageSelection
  | GenerateFromTextCommand
  | ChangeBackgroundCommand
  | ProcessPhotoForAiReplace
  | ApplySelectedHairstyle

text \<open>
  \<open>handle_video\<close> (lines 128-144). The first lines only write to the log. A video
  longer than 8 seconds is answered with a warning and dropped.
\<close>

definition handle_video :: "int \<Rightarrow> int \<Rightarrow> bot \<Rightarrow> bot \<times> call option" where
  "handle_video chat_id duration b =
     (if duration > 8 then (send_message chat_id VideoTooLong b, None)
      else (b, Some ProcessVideo))"

text \<open>
  \<open>str.isdigit\<close> on a text of characters below code point 256: not empty, and only
  decimal digits and the superscript digits two, three and one.
\<close>

definition is_digit_char :: "char \<Rightarrow> bool" where
  "is_digit_char c = (c \<in> set ''0123456789'' \<or> c \<in> {CHR 0xB2, CHR 0xB3, CHR 0xB9})"

definition isdigit :: "string \<Rightarrow> bool" where
  "isdigit s = (s \<noteq> [] \<and> list_all is_digit_char s)"

definition startswith :: "string \<Rightarrow> string \<Rightarrow> bool" where
  "startswith s p = (take (length p) s = p)"

text \<open>
  \<open>handle_text\<close> (lines 146-256), the handler of every text message. The checks are made
  in the order of the source. \<open>message.text.strip()\<close> of a text that passed \<open>isdigit\<close>
  is the text itself.
\<close>

definition handle_text :: "int \<Rightarrow> string \<Rightarrow> bot \<Rightarrow> bot \<times> call option" where
  "handle_text chat_id text b0 =
     (if startswith text ''/'' then (b0, None)
      else
        let b = ensure_session chat_id b0; s = session_of b chat_id in
        if truthy (py_get s ''waiting_for_payment_method'')
          then (b, Some HandlePaymentMethodSelection)
        else if isdigit text \<and> text = ''5''
          then (send_message chat_id Feature5Prompt
                  (set_key chat_id ''current_feature'' (VStr ''5'') b), None)
        else if isdigit text \<and> text = ''6''
          then (send_message chat_id Feature6Prompt
                  (set_key chat_id ''current_feature'' (VStr ''6'') b), None)
        else if isdigit text \<and> text = ''7''
          then (b, Some GenerateFromTextCommand)
        else if py_get s ''current_feature'' = VStr ''5'' \<and> s ''image_data'' \<noteq> None
          then (set_key chat_id ''waiting_for_background_prompt'' (VBool True)
                  (set_key chat_id ''background_prompt'' (VStr text) b),
                Some ChangeBackgroundCommand)
        else if py_get s ''current_feature'' = VStr ''6'' \<and> s ''image_data'' \<noteq> None
          then (set_key chat_id ''replace_prompt'' (VStr text) b,
                Some ProcessPhotoForAiReplace)
        else if truthy (py_get s ''waiting_for_package_selection'')
          then (b, Some HandlePackageSelection)
        else if truthy (py_get s ''waiting_for_payment_method'')
          then (b, Some HandlePaymentMethodSelection)
        else if truthy (py_get s ''waiting_for_hairstyle_selection'')
          then (b, Some ApplySelectedHairstyle)
        else if truthy (py_get s ''waiting_for_text_prompt'')
          then (b, Some GenerateFromTextCommand)
        else if truthy (py_get s ''waiting_for_background_prompt'')
          then (b, Some ChangeBackgroundCommand)
        else (send_message chat_id UseCommandsHint b, None))"

text \<open>\<open>menu_command\<close> (lines 553-561).\<close>

definition menu_command :: "int \<Rightarrow> bot \<Rightarrow> bot" where
  "menu_command chat_id b = send_message chat_id MenuText (reset_all_waiting_states chat_id b)"

text \<open>
  A handler that can let a Python exception escape returns the state at the moment of
  the exception (the writes made before it stay) and says so.
\<close>

datatype outcome = Returned | Raised

text \<open>
  \<open>faceshape_command\<close> (lines 1373-1421). The table \<open>FACE_SHAPE_CRITERIA\<close> of the
  configuration module is a parameter: the description of each face shape it has a row
  for. A stored face shape without a row raises \<open>KeyError\<close> before the reply is sent.
\<close>

definition faceshape_command ::
  "(string \<rightharpoonup> string) \<Rightarrow> int \<Rightarrow> bot \<Rightarrow> bot \<times> outcome" where
  "faceshape_command criteria chat_id b0 =
     (let b = set_key chat_id ''current_feature'' (VStr ''2'') (ensure_session chat_id b0);
          s = session_of b chat_id
      in case s ''face_shape'' of
           None \<Rightarrow>
             (set_key chat_id ''awaiting_analysis_method'' (VBool True)
                (send_message chat_id (AnalysisMethodPrompt None) b), Returned)
         | Some (VStr shape) \<Rightarrow>
             (case criteria shape of
                None \<Rightarrow> (b, Raised)
              | Some description \<Rightarrow>
                  (set_key chat_id ''awaiting_analysis_method'' (VBool True)
                     (send_message chat_id (AnalysisMethodPrompt (Some description)) b),
                   Returned))
         | Some _ \<Rightarrow> (b, Raised))"

text \<open>
  \<open>try_hairstyle_command\<close> (lines 2404-2449), the entry of the hairstyle try-on. The
  cost is the literal 2 of the source.
\<close>

definition try_hairstyle_command :: "int \<Rightarrow> bot \<Rightarrow> bot" where
  "try_hairstyle_command chat_id b =
     (if user_data b chat_id = None \<or> session_of b chat_id ''face_shape'' = None
      then send_message chat_id NoPhotoYet b
      else
        let credits = get_user_credits b chat_id; cost = 2 in
        if credits < cost
        then send_message chat_id PremiumFeatures
               (send_message chat_id (NotEnoughCredits credits cost) b)
        else
          let b1 = send_message chat_id (TryCostInfo cost credits) b;
              face_shape = py_get (session_of b1 chat_id) ''face_shape'';
              b2 = set_key chat_id ''waiting_for_hairstyle_selection'' (VBool True) b1;
              b3 = set_key chat_id ''customization_state'' (VStr ''selecting_gender'') b2;
              b4 = set_key chat_id ''face_shape'' face_shape b3
          in send_message chat_id TryHairstylePrompt b4)"

section \<open>Strings\<close>

text \<open>
  Texts are lists of characters, a character standing for the code point of the same
  number. Every pattern the handlers look for is ASCII; the functions below follow
  Python's \<open>str.split()\<close>, \<open>str.split(sep)\<close> and \<open>str.replace(old, new)\<close> with a
  pattern that is not empty. The white space of \<open>str.split()\<close> below code point 256
  is the tab, the line and page controls, the four separators, the blank, the next-line
  control and the no-break space.
\<close>

definition is_space :: "char \<Rightarrow> bool" where
  "is_space c =
     (c \<in> {CHR '' '', CHR 0x09, CHR 0x0A, CHR 0x0B, CHR 0x0C, CHR 0x0D,
            CHR 0x1C, CHR 0x1D, CHR 0x1E, CHR 0x1F, CHR 0x85, CHR 0xA0})"

fun split_ws :: "string \<Rightarrow> string \<Rightarrow> string list" where
  "split_ws cur [] = (if cur = [] then [] else [cur])"
| "split_ws cur (c # cs) =
     (if is_space c then (if cur = [] then split_ws [] cs else cur # split_ws [] cs)
      else split_ws (cur @ [c]) cs)"

definition py_split :: "string \<Rightarrow> string list" where
  "py_split s = split_ws [] s"

fun split_on :: "char \<Rightarrow> string \<Rightarrow> string list" where
  "split_on sep [] = [[]]"
| "split_on sep (c # cs) =
     (if c = sep then [] # split_on sep cs
      else (case split_on sep cs of [] \<Rightarrow> [[c]] | w # ws \<Rightarrow> (c # w) # ws))"

function py_replace :: "string \<Rightarrow> string \<Rightarrow> string \<Rightarrow> string" where
  "py_replace old new [] = []"
| "py_replace old new (c # cs) =
     (if old \<noteq> [] \<and> startswith (c # cs) old
      then new @ py_replace old new (drop (length old) (c # cs))
      else c # py_replace old new cs)"
  by pat_completeness auto
termination
  by (relation "measure (\<lambda>(old, new, s). length s)") auto

text \<open>\<open>str(n)\<close> of an integer.\<close>

fun str_of_nat :: "nat \<Rightarrow> string" where
  "str_of_nat n =
     (if n < 10 then [''0123456789'' ! n]
      else str_of_nat (n div 10) @ [''0123456789'' ! (n mod 10)])"

definition str_of_int :: "int \<Rightarrow> string" where
  "str_of_int i = (if i < 0 then CHR ''-'' # str_of_nat (nat (- i)) else str_of_nat (nat i))"

section \<open>Payment providers\<close>

text \<open>
  The three payment modules (\<open>CryptoPayment\<close>, \<open>CryptoBotPayment\<close>, \<open>StripePayment\<close>)
  and the Stripe library are collaborators outside the sources. What a call returns is
  an input of the model: a value, or the fact that the call raised.
\<close>

datatype 'a result = Ok 'a | Exception

text \<open>
  The dictionary returned by \<open>get_payment_data\<close>, by the keys the handlers read. A key
  that is absent is \<open>None\<close>. \<open>pd_amount\<close> is what \<open>float(payment_data.get("amount", 0))\<close>
  evaluates to, \<open>None\<close> when that conversion raises. The credits are integers.
\<close>

record payment_data =
  pd_telegram_id :: "val option"
  pd_credits :: "int option"
  pd_package_id :: "string option"
  pd_amount :: "rat option"

text \<open>
  The invoice returned by \<open>get_invoice\<close>: \<open>invoice.get("payload", "")\<close>,
  \<open>invoice.get("hidden_message", "")\<close> and \<open>float(invoice.get("amount", 0))\<close>, \<open>None\<close>
  when the conversion raises.
\<close>

record invoice =
  inv_payload :: string
  inv_hidden_message :: string
  inv_amount :: "rat option"

text \<open>
  A status is a Python string or \<open>None\<close>. \<open>get_payment_data\<close> and \<open>get_invoice\<close>
  return \<open>None\<close> here for every value that Python takes as false (\<open>None\<close>, the empty
  dictionary). \<open>stripe_session_paid\<close> is the test
  \<open>session and session.payment_status == "paid"\<close> on the session retrieved from the
  Stripe library. \<open>initial_credits\<close> is the balance of a newly created account.
\<close>

record providers =
  crypto_check :: "string \<Rightarrow> string option result"
  stripe_check :: "string \<Rightarrow> string option result"
  stripe_session_paid :: "string \<Rightarrow> bool result"
  stripe_data :: "string \<Rightarrow> payment_data option result"
  cryptobot_check :: "string \<Rightarrow> string option result"
  cryptobot_data :: "string \<Rightarrow> payment_data option result"
  cryptobot_invoice :: "string \<Rightarrow> invoice option result"
  credits_by_package :: "string option \<Rightarrow> int result"
  initial_credits :: int

text \<open>\<open>str(payment_data.get('telegram_id')) == str(chat_id)\<close>\<close>

definition telegram_id_matches :: "val option \<Rightarrow> int \<Rightarrow> bool" where
  "telegram_id_matches v chat_id =
     (case v of
        Some (VInt i) \<Rightarrow> i = chat_id
      | Some (VStr s) \<Rightarrow> s = str_of_int chat_id
      | _ \<Rightarrow> False)"

text \<open>
  \<open>handle_stripe_payment\<close> (lines 4985-5097). The user row is looked up by Telegram
  id; the account table stands for the user table. The amount 0.40 is the literal of the
  source. The result is the state and the returned Boolean.
\<close>

definition handle_stripe_payment :: "providers \<Rightarrow> int \<Rightarrow> string \<Rightarrow> bot \<Rightarrow> bot \<times> bool" where
  "handle_stripe_payment env chat_id session_id b =
     (let existing_transaction = transactions b session_id in
      if (case existing_transaction of None \<Rightarrow> False | Some t \<Rightarrow> tx_status t = ''completed'')
      then (send_message chat_id (StripeAlreadyProcessed (get_user_credits b chat_id)) b, True)
      else
        case stripe_data env session_id of
          Exception \<Rightarrow> (send_message chat_id StripeSupport b, False)
        | Ok payment_data \<Rightarrow>
            let credits =
                  (case payment_data of
                     None \<Rightarrow> 5
                   | Some pd \<Rightarrow> (case pd_credits pd of None \<Rightarrow> 5 | Some c \<Rightarrow> c))
            in
            case existing_transaction of
              Some t \<Rightarrow>
                let b1 = b\<lparr>transactions :=
                             (transactions b)(session_id \<mapsto> t\<lparr>tx_status := ''completed''\<rparr>)\<rparr>;
                    updated_credits = get_user_credits b1 chat_id + credits;
                    b2 = update_user_credits chat_id updated_credits b1
                in (send_message chat_id (StripeProcessed credits updated_credits) b2, True)
            | None \<Rightarrow>
                if accounts b chat_id = None then (b, False)
                else
                  let b1 = b\<lparr>transactions :=
                               (transactions b)(session_id \<mapsto>
                                  \<lparr>tx_user = chat_id, tx_amount = 4 / 10, tx_credits = credits,
                                   tx_status = ''completed''\<rparr>)\<rparr>;
                      updated_credits = get_user_credits b1 chat_id + credits;
                      b2 = update_user_credits chat_id updated_credits b1
                  in (send_message chat_id (StripeProcessed credits updated_credits) b2, True))"

text \<open>
  The first part of \<open>handle_successful_payment\<close> (lines 1121-1166): the provider is
  chosen by the prefix of the payment id and asked for the status. The result is the
  reported status, the status that counts as success for the chosen provider, and the
  payment data. \<open>Exception\<close> is an exception that reaches the handler's outer
  \<open>except\<close>; inside the Stripe branch every exception turns into the status
  \<open>error\<close>, apart from one raised by \<open>get_payment_data\<close>, which only loses the data.
\<close>

definition provider_status ::
  "providers \<Rightarrow> string \<Rightarrow> (string option \<times> string \<times> payment_data option) result" where
  "provider_status env payment_id =
     (if startswith payment_id ''TEST_'' \<or> startswith payment_id ''CP_'' then
        (case crypto_check env payment_id of
           Exception \<Rightarrow> Exception
         | Ok payment_status \<Rightarrow> Ok (payment_status, ''completed'', None))
      else if startswith payment_id ''cs_'' \<or> startswith payment_id ''pi_'' then
        (case stripe_check env payment_id of
           Exception \<Rightarrow> Ok (Some ''error'', ''completed'', None)
         | Ok first_status \<Rightarrow>
             (case (case first_status of
                      Some st \<Rightarrow> Ok (Some st)
                    | None \<Rightarrow>
                        (case stripe_session_paid env payment_id of
                           Exception \<Rightarrow> Exception
                         | Ok paid \<Rightarrow> Ok (Some (if paid then ''completed'' else ''pending''))))
              of
                Exception \<Rightarrow> Ok (Some ''error'', ''completed'', None)
              | Ok payment_status \<Rightarrow>
                  Ok (payment_status, ''completed'',
                      (case stripe_data env payment_id of
                         Exception \<Rightarrow> None
                       | Ok payment_data \<Rightarrow> payment_data))))
      else
        (case cryptobot_check env payment_id of
           Exception \<Rightarrow> Exception
         | Ok payment_status \<Rightarrow>
             (case cryptobot_data env payment_id of
                Exception \<Rightarrow> Exception
              | Ok payment_data \<Rightarrow> Ok (payment_status, ''paid'', payment_data))))"

text \<open>
  The metadata of a Crypto Bot invoice (lines 1287-1305): the items of the payload,
  separated by commas, each \<open>key:value\<close>; a later item overwrites an earlier one with
  the same key. The hidden message is read only when the payload is empty.
\<close>

fun parse_items :: "string list \<Rightarrow> (string \<rightharpoonup> string) \<Rightarrow> (string \<rightharpoonup> string)" where
  "parse_items [] metadata = metadata"
| "parse_items (item # items) metadata =
     parse_items items
       (if CHR '':'' \<in> set item
        then metadata(takeWhile (\<lambda>c. c \<noteq> CHR '':'') item \<mapsto>
                        tl (dropWhile (\<lambda>c. c \<noteq> CHR '':'') item))
        else metadata)"

definition invoice_metadata :: "invoice \<Rightarrow> (string \<rightharpoonup> string)" where
  "invoice_metadata invoice =
     (if inv_payload invoice \<noteq> []
        then parse_items (split_on CHR '','' (inv_payload invoice)) Map.empty
      else if inv_hidden_message invoice \<noteq> []
        then parse_items (split_on CHR '','' (inv_hidden_message invoice)) Map.empty
      else Map.empty)"

text \<open>
  The branch of \<open>handle_successful_payment\<close> for a payment without a transaction
  (lines 1265-1359): the package and the amount are taken from the payment data or,
  for a Crypto Bot payment, from the invoice; then the transaction is created and
  completed. Sending with \<open>self.bot.send_message\<close> and with \<open>safe_send_message\<close> is
  the same in the model: the message is sent.
\<close>

definition grant_from_package ::
  "providers \<Rightarrow> int \<Rightarrow> string \<Rightarrow> string option \<Rightarrow> rat \<Rightarrow> bot \<Rightarrow> bot \<times> bool" where
  "grant_from_package env chat_id payment_id package_id amount b =
     (case credits_by_package env package_id of
        Exception \<Rightarrow> (send_message chat_id PaymentProcessingError b, False)
      | Ok credits \<Rightarrow>
          if credits > 0 then
            (let b1 = create_transaction chat_id amount credits payment_id b;
                 (b2, done) = complete_transaction payment_id b1
             in if done
                then (send_message chat_id (PaymentSuccess credits (get_user_credits b2 chat_id)) b2,
                      True)
                else (send_message chat_id CreditGrantError b2, False))
          else (send_message chat_id PackageUnknown b, False))"

definition reconstruct_transaction ::
  "providers \<Rightarrow> int \<Rightarrow> string \<Rightarrow> payment_data option \<Rightarrow> bot \<Rightarrow> bot \<times> bool" where
  "reconstruct_transaction env chat_id payment_id payment_data b =
     (case payment_data of
        Some pd \<Rightarrow>
          (case pd_amount pd of
             None \<Rightarrow> (send_message chat_id PaymentProcessingError b, False)
           | Some amount \<Rightarrow> grant_from_package env chat_id payment_id (pd_package_id pd) amount b)
      | None \<Rightarrow>
          if \<not> startswith payment_id ''TEST_'' \<and> \<not> startswith payment_id ''CP_'' then
            (case cryptobot_invoice env payment_id of
               Exception \<Rightarrow> (send_message chat_id PaymentProcessingError b, False)
             | Ok None \<Rightarrow> (send_message chat_id InvoiceUnavailable b, False)
             | Ok (Some invoice) \<Rightarrow>
                 (case inv_amount invoice of
                    None \<Rightarrow> (send_message chat_id PaymentProcessingError b, False)
                  | Some amount \<Rightarrow>
                      grant_from_package env chat_id payment_id
                        (invoice_metadata invoice ''package_id'') amount b))
          else (send_message chat_id PaymentInfoNotFound b, False))"

text \<open>
  \<open>handle_successful_payment\<close> (lines 1116-1371). The result is the state and the
  returned Boolean. \<open>handle_payment_error\<close> of the Crypto Bot module supplies the text
  of the error message.
\<close>

definition handle_successful_payment ::
  "providers \<Rightarrow> int \<Rightarrow> string \<Rightarrow> bot \<Rightarrow> bot \<times> bool" where
  "handle_successful_payment env chat_id payment_id b =
     (case provider_status env payment_id of
        Exception \<Rightarrow> (send_message chat_id PaymentProcessingError b, False)
      | Ok (payment_status, success_status, payment_data) \<Rightarrow>
          if payment_status = Some ''error''
            then (send_message chat_id ProviderErrorText b, False)
          else if payment_status \<noteq> Some success_status then
            (if payment_status = Some ''expired''
               then (send_message chat_id InvoiceExpired b, False)
             else if payment_status = Some ''canceled''
               then (send_message chat_id PaymentCanceled b, False)
             else (send_message chat_id (PaymentNotCompleted payment_status success_status) b,
                   False))
          else
            (case transactions b payment_id of
               Some transaction \<Rightarrow>
                 if tx_status transaction = ''completed''
                   then (send_message chat_id
                           (PaymentAlreadyProcessed (tx_credits transaction)
                              (get_user_credits b chat_id)) b, True)
                 else if tx_status transaction = ''pending'' then
                   (let (b1, done) = complete_transaction payment_id b
                    in if done
                       then (send_message chat_id
                               (PaymentSuccess (tx_credits transaction)
                                  (get_user_credits b1 chat_id)) b1, True)
                       else (send_message chat_id CreditGrantError b1, False))
                 else (send_message chat_id TransactionStatusError b, False)
             | None \<Rightarrow> reconstruct_transaction env chat_id payment_id payment_data b))"

text \<open>
  Modelled from the spec: \<open>get_or_create_user\<close> of the module \<open>database\<close>, which is not
  part of the sources. Section 3: the credit account of a user is created on the first
  interaction and never deleted. The balance it starts with is a parameter.
\<close>

definition get_or_create_user :: "providers \<Rightarrow> int \<Rightarrow> bot \<Rightarrow> bot" where
  "get_or_create_user env chat_id b =
     (case accounts b chat_id of
        None \<Rightarrow> b\<lparr>accounts := (accounts b)(chat_id \<mapsto> initial_credits env)\<rparr>
      | Some c \<Rightarrow> b)"

text \<open>
  The return from a Stripe checkout whose session id is not a payment link (lines
  439-512 of \<open>start\<close>). An exception of the two Stripe calls is not caught here.
\<close>

definition add_credits :: "int \<Rightarrow> int \<Rightarrow> bot \<Rightarrow> bot" where
  "add_credits chat_id credits b =
     send_message chat_id (StripeCompleted credits (get_user_credits b chat_id + credits))
       (update_user_credits chat_id (get_user_credits b chat_id + credits) b)"

definition stripe_return :: "providers \<Rightarrow> int \<Rightarrow> string \<Rightarrow> bot \<Rightarrow> bot \<times> outcome" where
  "stripe_return env chat_id session_id b =
     (case stripe_check env session_id of
        Exception \<Rightarrow> (b, Raised)
      | Ok status \<Rightarrow>
          if status = Some ''completed'' then
            (case stripe_data env session_id of
               Exception \<Rightarrow> (b, Raised)
             | Ok (Some pd) \<Rightarrow>
                 if telegram_id_matches (pd_telegram_id pd) chat_id then
                   (let credits = (case pd_credits pd of None \<Rightarrow> 0 | Some c \<Rightarrow> c);
                        updated_credits = get_user_credits b chat_id + credits;
                        b1 = update_user_credits chat_id updated_credits b;
                        b2 = fst (complete_transaction session_id b1)
                    in (send_message chat_id (StripeCompleted credits updated_credits) b2,
                        Returned))
                 else
                   (add_credits chat_id (case pd_credits pd of None \<Rightarrow> 5 | Some c \<Rightarrow> c) b,
                    Returned)
             | Ok None \<Rightarrow> (add_credits chat_id 5 b, Returned))
          else if status = Some ''pending'' then (send_message chat_id StripePending b, Returned)
          else (add_credits chat_id 5 b, Returned))"

text \<open>
  \<open>start\<close> (lines 400-546), the handler of the command \<open>/start\<close>; \<open>text\<close> is the text
  of the message, the command included.
\<close>

definition start :: "providers \<Rightarrow> int \<Rightarrow> string \<Rightarrow> bot \<Rightarrow> bot \<times> outcome" where
  "start env chat_id text b0 =
     (let b = reset_all_waiting_states chat_id b0;
          params = (if length (py_split text) > 1 then Some (py_split text ! 1) else None);
          rest = (\<lambda>b.
            let b1 = get_or_create_user env chat_id b in
            case params of
              None \<Rightarrow> (send_message chat_id StartText b1, Returned)
            | Some start_param \<Rightarrow>
                if startswith start_param ''success_'' \<or> startswith start_param ''success-''
                  then (fst (handle_successful_payment env chat_id
                          (py_replace ''success-'' [] (py_replace ''success_'' [] start_param)) b1),
                        Returned)
                else if startswith start_param ''fail_'' \<or> startswith start_param ''cancel-''
                  then (send_message chat_id PaymentFailed b1, Returned)
                else (send_message chat_id StartText b1, Returned))
      in case params of
           None \<Rightarrow> rest b
         | Some p \<Rightarrow>
             if startswith p ''success_payment_''
               then (fst (handle_stripe_payment env chat_id
                            (py_replace ''success_payment_'' [] p) b), Returned)
             else if startswith p ''success_'' \<or> startswith p ''success-'' then
               (let session_id = (if startswith p ''success_'' then py_replace ''success_'' [] p
                                  else py_replace ''success-'' [] p)
                in if startswith session_id ''pl_''
                   then (fst (handle_stripe_payment env chat_id session_id b), Returned)
                   else stripe_return env chat_id session_id b)
             else if startswith p ''cancel_'' \<or> startswith p ''cancel-''
               then (send_message chat_id StripeCancelled b, Returned)
             else rest b)"

section \<open>Photo intake\<close>

text \<open>
  What the transport and the vision collaborators return for one photo message:
  \<open>message.photo\<close> (the file ids of the sizes of the photo), the bytes of the largest
  size as downloaded, the face shape and the visualisation image of
  \<open>analyze_face_shape\<close> (no shape when no face is found; the image is empty when it is
  false in Python), the description of \<open>get_recommendations\<close>, and the landmark points
  of the face mesh (none when no face is found). The measurements of
  \<open>analyze_face_shape\<close> are numbers, which only go into the text of the result.
\<close>

record photo_env =
  photos :: "string list"
  download :: "nat list result"
  analyze_face_shape :: "(string option \<times> nat list) result"
  get_recommendations :: "string \<Rightarrow> string result"
  face_mesh_landmarks :: "(int \<times> int) list option result"

text \<open>A list of points as a Python value; a point is the list of its two coordinates.\<close>

definition points_val :: "(int \<times> int) list \<Rightarrow> val" where
  "points_val pts = VList (map (\<lambda>(x, y). VList [VInt x, VInt y]) pts)"

text \<open>
  The outer \<open>except\<close> of \<open>process_photo\<close> (lines 2105-2113): the error text is sent
  when \<open>chat_id\<close> is true in Python, that is, not zero.
\<close>

definition error_reply :: "int \<Rightarrow> bot \<Rightarrow> bot" where
  "error_reply chat_id b = (if chat_id \<noteq> 0 then send_message chat_id ErrorText b else b)"

text \<open>
  The last part of \<open>process_photo\<close> (lines 2003-2103), reached when none of the
  feature branches applies: the standard face analysis.
\<close>

definition standard_analysis :: "photo_env \<Rightarrow> int \<Rightarrow> bot \<Rightarrow> bot" where
  "standard_analysis env chat_id b =
     (let b1 = send_message chat_id ProcessingText b in
      if photos env = [] then send_message chat_id NoFaceText b1
      else
        case download env of
          Exception \<Rightarrow> error_reply chat_id b1
        | Ok downloaded \<Rightarrow>
            let b2 = set_key chat_id ''image_data'' (VBytes downloaded) (ensure_session chat_id b1) in
            case analyze_face_shape env of
              Exception \<Rightarrow> error_reply chat_id b2
            | Ok (None, vis_image_bytes) \<Rightarrow> send_message chat_id NoFaceText b2
            | Ok (Some face_shape, vis_image_bytes) \<Rightarrow>
                (case get_recommendations env face_shape of
                   Exception \<Rightarrow> error_reply chat_id b2
                 | Ok description \<Rightarrow>
                     let b3 = (case face_mesh_landmarks env of
                                 Ok (Some landmarks) \<Rightarrow>
                                   set_key chat_id ''waiting_for_hairstyle_selection'' (VBool False)
                                     (set_key chat_id ''image_data'' (VBytes downloaded)
                                        (set_key chat_id ''landmarks'' (points_val landmarks)
                                           (set_key chat_id ''face_shape'' (VStr face_shape)
                                              (ensure_session chat_id b2))))
                               | _ \<Rightarrow> b2);
                         b4 = (if vis_image_bytes \<noteq> []
                               then send_message chat_id (LandmarkPhoto vis_image_bytes) b3
                               else b3)
                     in send_message chat_id (AnalysisResult description) b4))"

text \<open>
  \<open>process_photo\<close> (lines 1648-2113). The branches for the features 3, 5, 6, 2 and 4
  (lines 1654-2001) are named by the result and not followed further; every other
  session, and a chat without a session, gets the standard analysis.
\<close>

datatype photo_route =
    SymmetryCheck
  | BackgroundRemoval
  | AiReplace
  | FaceShapeAnalysis
  | Attractiveness
  | StandardAnalysis

definition process_photo :: "photo_env \<Rightarrow> int \<Rightarrow> bot \<Rightarrow> bot \<times> photo_route" where
  "process_photo env chat_id b =
     (let current_feature = py_get (session_of b chat_id) ''current_feature'' in
      if user_data b chat_id \<noteq> None \<and> current_feature = VStr ''3'' then (b, SymmetryCheck)
      else if user_data b chat_id \<noteq> None \<and> current_feature = VStr ''5'' then (b, BackgroundRemoval)
      else if user_data b chat_id \<noteq> None \<and> current_feature = VStr ''6'' then (b, AiReplace)
      else if user_data b chat_id \<noteq> None \<and> current_feature = VStr ''2'' then (b, FaceShapeAnalysis)
      else if user_data b chat_id \<noteq> None \<and> current_feature = VStr ''4'' then (b, Attractiveness)
      else (standard_analysis env chat_id b, StandardAnalysis))"

section \<open>Hairstyle generation\<close>

text \<open>
  What the collaborators of \<open>generate_hairstyle\<close> do in one call: whether the prompt
  is built without an exception (lines 2801-2883: the prompt is put together from the
  stored selections and the answer of the translation service; nothing is written),
  the landmarks of a new face analysis, whether the list of hairstyles is obtained and
  overridden without an exception (lines 2936-2963), and the image of
  \<open>apply_hairstyle\<close>, \<open>None\<close> on failure.
\<close>

record hairstyle_env =
  prompt_built :: bool
  reanalysis_landmarks :: "val result"
  hairstyles_listed :: bool
  apply_hairstyle :: "nat list option result"

text \<open>\<open>xs[i]\<close> on a list: a negative index counts from the end.\<close>

definition py_index :: "'a list \<Rightarrow> int \<Rightarrow> 'a option" where
  "py_index xs i =
     (let n = int (length xs); j = (if i < 0 then n + i else i)
      in if 0 \<le> j \<and> j < n then Some (xs ! nat j) else None)"

text \<open>The number a value stands for as an index or in a comparison with a number.\<close>

definition as_index :: "val \<Rightarrow> int option" where
  "as_index v =
     (case v of VInt i \<Rightarrow> Some i | VBool flag \<Rightarrow> Some (if flag then 1 else 0) | _ \<Rightarrow> None)"

text \<open>
  \<open>container[key]\<close>, \<open>None\<close> when it raises. A list, a string and a bytes object take a
  number; a dictionary, whose keys are strings here, takes a string that is among its
  keys. Nothing else can be subscripted.
\<close>

definition py_subscript :: "val \<Rightarrow> val \<Rightarrow> val option" where
  "py_subscript container key =
     (case container of
        VList xs \<Rightarrow> (case as_index key of None \<Rightarrow> None | Some i \<Rightarrow> py_index xs i)
      | VDict kvs \<Rightarrow> (case key of VStr k \<Rightarrow> map_of kvs k | _ \<Rightarrow> None)
      | VStr text \<Rightarrow>
          (case as_index key of
             None \<Rightarrow> None
           | Some i \<Rightarrow> (case py_index text i of None \<Rightarrow> None | Some c \<Rightarrow> Some (VStr [c])))
      | VBytes bytes \<Rightarrow>
          (case as_index key of
             None \<Rightarrow> None
           | Some i \<Rightarrow> (case py_index bytes i of None \<Rightarrow> None | Some n \<Rightarrow> Some (VInt (int n))))
      | _ \<Rightarrow> None)"

text \<open>
  \<open>hairstyle = self.user_data[chat_id]['hairstyle_objects'][hairstyle_index]\<close> and the
  two reads before it (lines 2797-2799); \<open>None\<close> when one of them raises. The hairstyle
  has to be a dictionary for the \<open>hairstyle.get\<close> of line 2807, before which nothing is
  written or sent.
\<close>

definition selected_hairstyle :: "session \<Rightarrow> (string \<times> val) list option" where
  "selected_hairstyle s =
     (case (s ''selected_hairstyle_index'', s ''selected_hairstyle_name'', s ''hairstyle_objects'') of
        (Some hairstyle_index, Some hairstyle_name, Some hairstyle_objects) \<Rightarrow>
          (case py_subscript hairstyle_objects hairstyle_index of
             Some (VDict hairstyle) \<Rightarrow> Some hairstyle
           | _ \<Rightarrow> None)
      | _ \<Rightarrow> None)"

text \<open>
  \<open>generate_hairstyle\<close> (lines 2790-3012). The reads of the session before the \<open>try\<close>
  of line 2934 raise when the key is missing; the exceptions inside it are answered
  with the error text. One of them is the \<open>TypeError\<close> of
  \<open>hairstyle_index < len(all_hairstyles)\<close> (line 2950) for an index that is not a
  number, which comes before the call of \<open>apply_hairstyle\<close>. The charge is the literal
  2 of the source; the result of \<open>use_credit\<close> is not looked at.
\<close>

definition generate_hairstyle :: "hairstyle_env \<Rightarrow> int \<Rightarrow> bot \<Rightarrow> bot \<times> outcome" where
  "generate_hairstyle env chat_id b =
     (if user_data b chat_id = None then (b, Raised)
      else
        let b1 = set_key chat_id ''waiting_for_hairstyle_selection'' (VBool False) b;
            b2 = set_key chat_id ''customization_state'' (VStr ''selecting_style'') b1;
            s = session_of b2 chat_id
        in
        if selected_hairstyle s = None \<or> \<not> prompt_built env then (b2, Raised)
        else
          let b3 = send_message chat_id HairstyleGenerating b2 in
          if s ''image_data'' = None \<or> s ''face_shape'' = None then (b3, Raised)
          else
            let b4 = (if s ''landmarks'' = None \<or> \<not> truthy (py_get s ''landmarks'')
                      then set_key chat_id ''landmarks''
                             (case reanalysis_landmarks env of
                                Ok landmarks \<Rightarrow> if truthy landmarks then landmarks else VNone
                              | Exception \<Rightarrow> VNone) b3
                      else b3)
            in
            if \<not> hairstyles_listed env \<or> as_index (py_get s ''selected_hairstyle_index'') = None
            then (send_message chat_id ErrorText b4, Returned)
            else
              case apply_hairstyle env of
                Exception \<Rightarrow> (send_message chat_id ErrorText b4, Returned)
              | Ok None \<Rightarrow> (send_message chat_id ErrorText b4, Returned)
              | Ok (Some result_image_bytes) \<Rightarrow>
                  if result_image_bytes = [] then (send_message chat_id ErrorText b4, Returned)
                  else
                    let b5 = fst (use_credit chat_id 2 b4)
                    in (send_message chat_id
                          (HairstylePhoto result_image_bytes (get_user_credits b5 chat_id)) b5,
                        Returned))"

section \<open>Replays\<close>

text \<open>
  The same payment callback delivered several times: the handlers of the list are run
  one after the other, each on the state the one before left. The providers may answer
  differently each time, so each run has its own handler.
\<close>

fun replay :: "(bot \<Rightarrow> bot \<times> bool) list \<Rightarrow> bot \<Rightarrow> bot" where
  "replay [] b = b"
| "replay (handler # handlers) b = replay handlers (fst (handler b))"

section \<open>Example states\<close>

definition empty_bot :: bot where
  "empty_bot = \<lparr>user_data = Map.empty, accounts = Map.empty, transactions = Map.empty, sent = []\<rparr>"

text \<open>One chat, number 1, with the given session and credit balance.\<close>

definition one_chat :: "session \<Rightarrow> int \<Rightarrow> bot" where
  "one_chat s credits =
     \<lparr>user_data = [1 \<mapsto> s], accounts = [1 \<mapsto> credits], transactions = Map.empty, sent = []\<rparr>"

text \<open>The same, with one transaction of 10 credits for chat 1 under the given payment id.\<close>

definition paid_chat :: "string \<Rightarrow> string \<Rightarrow> int \<Rightarrow> bot" where
  "paid_chat payment_id status credits =
     \<lparr>user_data = [1 \<mapsto> Map.empty], accounts = [1 \<mapsto> credits],
      transactions = [payment_id \<mapsto>
        \<lparr>tx_user = 1, tx_amount = 5, tx_credits = 10, tx_status = status\<rparr>],
      sent = []\<rparr>"

text \<open>Providers that all report the given status and have no data on any payment.\<close>

definition providers_reporting :: "string \<Rightarrow> providers" where
  "providers_reporting status =
     \<lparr>crypto_check = (\<lambda>payment_id. Ok (Some status)),
      stripe_check = (\<lambda>payment_id. Ok (Some status)),
      stripe_session_paid = (\<lambda>payment_id. Ok False),
      stripe_data = (\<lambda>payment_id. Ok None),
      cryptobot_check = (\<lambda>payment_id. Ok (Some status)),
      cryptobot_data = (\<lambda>payment_id. Ok None),
      cryptobot_invoice = (\<lambda>payment_id. Ok None),
      credits_by_package = (\<lambda>package_id. Ok 0),
      initial_credits = 0\<rparr>"

text \<open>Providers whose every call raises an exception.\<close>

definition providers_down :: providers where
  "providers_down =
     \<lparr>crypto_check = (\<lambda>payment_id. Exception),
      stripe_check = (\<lambda>payment_id. Exception),
      stripe_session_paid = (\<lambda>payment_id. Exception),
      stripe_data = (\<lambda>payment_id. Exception),
      cryptobot_check = (\<lambda>payment_id. Exception),
      cryptobot_data = (\<lambda>payment_id. Exception),
      cryptobot_invoice = (\<lambda>payment_id. Exception),
      credits_by_package = (\<lambda>package_id. Exception),
      initial_credits = 0\<rparr>"





text \<open>
  A photo with a face of oval shape, a generation service that fails, and one that
  returns an image.
\<close>

definition oval_photo :: photo_env where
  "oval_photo =
     \<lparr>photos = [''small'', ''large''], download = Ok [1, 2, 3],
      analyze_face_shape = Ok (Some ''OVAL'', [4, 5]),
      get_recommendations = (\<lambda>shape. Ok ''oval face''),
      face_mesh_landmarks = Ok (Some [(10, 20)])\<rparr>"

definition failing_generation :: hairstyle_env where
  "failing_generation =
     \<lparr>prompt_built = True, reanalysis_landmarks = Ok VNone, hairstyles_listed = True,
      apply_hairstyle = Ok None\<rparr>"

definition working_generation :: hairstyle_env where
  "working_generation =
     \<lparr>prompt_built = True, reanalysis_landmarks = Ok VNone, hairstyles_listed = True,
      apply_hairstyle = Ok (Some [7, 8, 9])\<rparr>"

text \<open>A session that waits for the texture of the chosen hairstyle.\<close>

definition texture_session :: session where
  "texture_session =
     [''waiting_for_hairstyle_selection'' \<mapsto> VBool True,
      ''customization_state'' \<mapsto> VStr ''selecting_texture'',
      ''selected_hairstyle_index'' \<mapsto> VInt 0,
      ''selected_hairstyle_name'' \<mapsto> VStr ''Bob'',
      ''hairstyle_objects'' \<mapsto> VList [VDict [(''style'', VStr ''bob haircut'')]],
      ''image_data'' \<mapsto> VBytes [1, 2, 3],
      ''face_shape'' \<mapsto> VStr ''OVAL'',
      ''landmarks'' \<mapsto> VList [VList [VInt 10, VInt 20]]]"

text \<open>
  A session in the middle of the background flow that also holds the results of an
  earlier analysis, and a table of face shapes with one row.
\<close>

definition busy_session :: session where
  "busy_session =
     [''face_shape'' \<mapsto> VStr ''OVAL'',
      ''landmarks'' \<mapsto> VList [VList [VInt 10, VInt 20]],
      ''image_data'' \<mapsto> VBytes [1, 2, 3],
      ''current_feature'' \<mapsto> VStr ''5'',
      ''waiting_for_background_prompt'' \<mapsto> VBool True,
      ''awaiting_analysis_method'' \<mapsto> VBool True,
      ''customization_state'' \<mapsto> VStr ''selecting_style'']"

definition shape_table :: "string \<rightharpoonup> string" where
  "shape_table = [''OVAL'' \<mapsto> ''oval face'']"

text \<open>A session without an active feature, as the reset leaves it.\<close>

definition idle_session :: session where
  "idle_session =
     [''current_feature'' \<mapsto> VNone,
      ''waiting_for_background_prompt'' \<mapsto> VBool False]"

text \<open>A session that waits for the choice of a credit package.\<close>

definition package_session :: session where
  "package_session =
     [''current_feature'' \<mapsto> VNone,
      ''selected_payment_method'' \<mapsto> VStr ''crypto'',
      ''waiting_for_package_selection'' \<mapsto> VBool True]"

section \<open>Basic facts about sessions and the reset\<close>

lemma clear_flags_apply:
  "clear_flags flags s k = (if k \<in> set flags \<and> s k \<noteq> None then Some (VBool False) else s k)"
proof (induction flags arbitrary: s)
  case Nil
  show ?case by simp
next
  case (Cons flag flags)
  show ?case by (simp add: Cons.IH)
qed

lemma reset_session_apply:
  "reset_session s k =
     (if s k = None then None
      else if k = ''current_feature'' then Some VNone
      else if k \<in> set waiting_flags then Some (VBool False)
      else s k)"
  unfolding reset_session_def Let_def clear_flags_apply
  by (simp add: waiting_flags_def)

lemma session_of_reset:
  "session_of (reset_all_waiting_states chat_id b) chat_id = reset_session (session_of b chat_id)"
  by (auto simp: session_of_def reset_all_waiting_states_def reset_session_apply fun_eq_iff
           split: option.splits)

lemma reset_frame:
  "accounts (reset_all_waiting_states chat_id b) = accounts b"
  "transactions (reset_all_waiting_states chat_id b) = transactions b"
  "sent (reset_all_waiting_states chat_id b) = sent b"
  "user_data (reset_all_waiting_states chat_id b) chat_id \<noteq> None"
  "c \<noteq> chat_id \<Longrightarrow> user_data (reset_all_waiting_states chat_id b) c = user_data b c"
  by (simp_all add: reset_all_waiting_states_def split: option.splits)

lemma session_of_send: "session_of (send_message c r b) = session_of b"
  by (simp add: session_of_def send_message_def fun_eq_iff)

lemma session_of_set_key:
  "session_of (set_key c k v b) c k' =
     (if user_data b c = None then None else if k' = k then Some v else session_of b c k')"
  by (simp add: session_of_def set_key_def split: option.splits)

lemma session_of_ensure: "session_of (ensure_session c b) = session_of b"
  by (auto simp: session_of_def ensure_session_def fun_eq_iff split: option.splits)

lemma user_data_ensure: "user_data (ensure_session c b) c \<noteq> None"
  by (simp add: ensure_session_def split: option.splits)

lemma user_data_set_key_None: "(user_data (set_key c k v b) c = None) = (user_data b c = None)"
  by (simp add: set_key_def split: option.splits)

lemma user_data_send: "user_data (send_message c r b) = user_data b"
  by (simp add: send_message_def)

text \<open>What each write leaves alone.\<close>

lemma set_key_frame:
  "accounts (set_key c k v b) = accounts b"
  "transactions (set_key c k v b) = transactions b"
  "sent (set_key c k v b) = sent b"
  by (simp_all add: set_key_def split: option.splits)

lemma ensure_session_frame:
  "accounts (ensure_session c b) = accounts b"
  "transactions (ensure_session c b) = transactions b"
  "sent (ensure_session c b) = sent b"
  by (simp_all add: ensure_session_def split: option.splits)

lemma send_message_frame:
  "accounts (send_message c r b) = accounts b"
  "transactions (send_message c r b) = transactions b"
  "sent (send_message c r b) = sent b @ [(c, r)]"
  by (simp_all add: send_message_def)

lemma error_reply_frame:
  "accounts (error_reply c b) = accounts b"
  "transactions (error_reply c b) = transactions b"
  "sent (error_reply c b) = sent b @ (if c \<noteq> 0 then [(c, ErrorText)] else [])"
  "session_of (error_reply c b) = session_of b"
  by (simp_all add: error_reply_def send_message_frame session_of_send)

lemma use_credit_frame:
  "transactions (fst (use_credit c n b)) = transactions b"
  "sent (fst (use_credit c n b)) = sent b"
  "user_data (fst (use_credit c n b)) = user_data b"
  "session_of (fst (use_credit c n b)) = session_of b"
  by (simp_all add: use_credit_def update_user_credits_def session_of_def fun_eq_iff)

section \<open>Video intake\<close>

text \<open>
  Claim C10. A video longer than 8 seconds is answered with the warning and nothing
  else happens: no handler is called, and the sessions, the balances and the
  transactions stay as they are. A video of at most 8 seconds is handed to
  \<open>process_video\<close> with the state untouched, and only such a video is handed on.
\<close>

theorem handle_video_duration_limit:
  "(8 < duration \<longrightarrow>
      snd (handle_video chat_id duration b) = None \<and>
      user_data (fst (handle_video chat_id duration b)) = user_data b \<and>
      accounts (fst (handle_video chat_id duration b)) = accounts b \<and>
      transactions (fst (handle_video chat_id duration b)) = transactions b \<and>
      sent (fst (handle_video chat_id duration b)) = sent b @ [(chat_id, VideoTooLong)]) \<and>
   (duration \<le> 8 \<longrightarrow> handle_video chat_id duration b = (b, Some ProcessVideo)) \<and>
   (snd (handle_video chat_id duration b) = Some ProcessVideo \<longrightarrow> duration \<le> 8)"
  by (simp add: handle_video_def send_message_def)

theorem handle_video_duration_limit_witness:
  "(8::int) < 9 \<and> snd (handle_video 1 9 empty_bot) = None \<and>
   sent (fst (handle_video 1 9 empty_bot)) = [(1, VideoTooLong)] \<and>
   (8::int) \<le> 8 \<and> handle_video 1 8 empty_bot = (empty_bot, Some ProcessVideo)"
  using handle_video_duration_limit [of 9 1 empty_bot] handle_video_duration_limit [of 8 1 empty_bot]
  by (simp add: empty_bot_def)

section \<open>What the reset keeps\<close>

text \<open>
  Claim C9. \<open>_reset_all_waiting_states\<close> leaves the stored face shape, the landmarks and
  the last uploaded image of the chat as they are; indeed every key that is neither one
  of the eight waiting flags nor \<open>current_feature\<close> keeps its value, and a key whose value
  changes becomes \<open>False\<close> or \<open>None\<close>. So a hairstyle try-on after the reset still finds
  the face shape: it does not answer that no photo was sent yet.
\<close>

theorem reset_preserves_results:
  "session_of (reset_all_waiting_states chat_id b) chat_id ''face_shape''
     = session_of b chat_id ''face_shape'' \<and>
   session_of (reset_all_waiting_states chat_id b) chat_id ''landmarks''
     = session_of b chat_id ''landmarks'' \<and>
   session_of (reset_all_waiting_states chat_id b) chat_id ''image_data''
     = session_of b chat_id ''image_data'' \<and>
   (k \<notin> set waiting_flags \<and> k \<noteq> ''current_feature'' \<longrightarrow>
      session_of (reset_all_waiting_states chat_id b) chat_id k = session_of b chat_id k) \<and>
   (session_of (reset_all_waiting_states chat_id b) chat_id k \<noteq> session_of b chat_id k \<longrightarrow>
      session_of (reset_all_waiting_states chat_id b) chat_id k = Some (VBool False) \<or>
      session_of (reset_all_waiting_states chat_id b) chat_id k = Some VNone) \<and>
   (user_data b chat_id \<noteq> None \<and> session_of b chat_id ''face_shape'' \<noteq> None \<longrightarrow>
      sent (try_hairstyle_command chat_id (reset_all_waiting_states chat_id b))
        \<noteq> sent b @ [(chat_id, NoPhotoYet)])"
  by (simp add: session_of_reset reset_session_apply waiting_flags_def try_hairstyle_command_def
        reset_frame send_message_def Let_def)

theorem reset_preserves_results_witness:
  "''face_measurements'' \<notin> set waiting_flags \<and> ''face_measurements'' \<noteq> ''current_feature'' \<and>
   user_data (one_chat busy_session 0) 1 \<noteq> None \<and>
   session_of (one_chat busy_session 0) 1 ''face_shape'' \<noteq> None \<and>
   session_of (reset_all_waiting_states 1 (one_chat busy_session 0)) 1 ''face_shape''
     = Some (VStr ''OVAL'') \<and>
   session_of (reset_all_waiting_states 1 (one_chat busy_session 0)) 1 ''image_data''
     = Some (VBytes [1, 2, 3]) \<and>
   session_of (reset_all_waiting_states 1 (one_chat busy_session 0)) 1 ''face_measurements'' = None \<and>
   sent (try_hairstyle_command 1 (reset_all_waiting_states 1 (one_chat busy_session 0)))
     \<noteq> [(1, NoPhotoYet)]"
  using reset_preserves_results [of 1 "one_chat busy_session 0" "''face_measurements''"]
  by (simp add: one_chat_def busy_session_def session_of_def waiting_flags_def)

section \<open>What the entry commands reset\<close>

text \<open>
  Claim C4 at a concrete input. The session is in the background flow, waits for the
  analysis method and has a customization state left from a hairstyle try-on.
  \<open>/faceshape\<close> does not call the reset: it returns with the background flag still set
  and with the analysis-method flag set. \<open>/menu\<close> does call the reset, but the list of
  flags in \<open>_reset_all_waiting_states\<close> has no \<open>awaiting_analysis_method\<close> and the
  function never writes \<open>customization_state\<close>: both keep their values.
\<close>

theorem entry_commands_counterexample:
  "truthy (py_get (session_of (one_chat busy_session 0) 1) ''waiting_for_background_prompt'') \<and>
   snd (faceshape_command shape_table 1 (one_chat busy_session 0)) = Returned \<and>
   truthy (py_get (session_of (fst (faceshape_command shape_table 1 (one_chat busy_session 0))) 1)
             ''waiting_for_background_prompt'') \<and>
   truthy (py_get (session_of (fst (faceshape_command shape_table 1 (one_chat busy_session 0))) 1)
             ''awaiting_analysis_method'') \<and>
   truthy (py_get (session_of (menu_command 1 (one_chat busy_session 0)) 1)
             ''awaiting_analysis_method'') \<and>
   session_of (menu_command 1 (one_chat busy_session 0)) 1 ''customization_state''
     = Some (VStr ''selecting_style'')"
  by (simp add: faceshape_command_def menu_command_def reset_all_waiting_states_def
        reset_session_def Let_def one_chat_def busy_session_def shape_table_def py_get_def
        session_of_def ensure_session_def set_key_def send_message_def waiting_flags_def)

text \<open>
  What the reset does reach: none of the eight flags of its list is set afterwards and
  there is no current feature, while \<open>awaiting_analysis_method\<close> and
  \<open>customization_state\<close> have the values they had. After \<open>/menu\<close>, and after \<open>/start\<close>
  without a parameter, the session is the one the reset leaves. When \<open>/faceshape\<close>
  returns, \<open>awaiting_analysis_method\<close> is set, the current feature is 2, and every
  other key has the value it had.
\<close>

lemma reset_clears_listed_flags:
  "(flag \<in> set waiting_flags \<longrightarrow>
      \<not> truthy (py_get (session_of (reset_all_waiting_states chat_id b) chat_id) flag)) \<and>
   py_get (session_of (reset_all_waiting_states chat_id b) chat_id) ''current_feature'' = VNone \<and>
   session_of (reset_all_waiting_states chat_id b) chat_id ''awaiting_analysis_method''
     = session_of b chat_id ''awaiting_analysis_method'' \<and>
   session_of (reset_all_waiting_states chat_id b) chat_id ''customization_state''
     = session_of b chat_id ''customization_state'' \<and>
   session_of (menu_command chat_id b) chat_id
     = session_of (reset_all_waiting_states chat_id b) chat_id \<and>
   (length (py_split text) \<le> 1 \<longrightarrow>
      session_of (fst (start env chat_id text b)) chat_id
        = session_of (reset_all_waiting_states chat_id b) chat_id) \<and>
   (snd (faceshape_command criteria chat_id b) = Returned \<longrightarrow>
      session_of (fst (faceshape_command criteria chat_id b)) chat_id ''awaiting_analysis_method''
        = Some (VBool True) \<and>
      session_of (fst (faceshape_command criteria chat_id b)) chat_id ''current_feature''
        = Some (VStr ''2'') \<and>
      (k \<noteq> ''awaiting_analysis_method'' \<and> k \<noteq> ''current_feature'' \<longrightarrow>
         session_of (fst (faceshape_command criteria chat_id b)) chat_id k = session_of b chat_id k))"
proof -
  have flags: "flag \<in> set waiting_flags \<longrightarrow>
      \<not> truthy (py_get (session_of (reset_all_waiting_states chat_id b) chat_id) flag)"
    by (simp add: session_of_reset reset_session_apply py_get_def)
  have feature: "py_get (session_of (reset_all_waiting_states chat_id b) chat_id) ''current_feature'' = VNone"
    by (simp add: session_of_reset reset_session_apply py_get_def)
  have kept: "session_of (reset_all_waiting_states chat_id b) chat_id ''awaiting_analysis_method''
     = session_of b chat_id ''awaiting_analysis_method''"
   "session_of (reset_all_waiting_states chat_id b) chat_id ''customization_state''
     = session_of b chat_id ''customization_state''"
    by (simp_all add: session_of_reset reset_session_apply waiting_flags_def)
  have menu: "session_of (menu_command chat_id b) chat_id
     = session_of (reset_all_waiting_states chat_id b) chat_id"
    by (simp add: menu_command_def session_of_send)
  have session_create: "session_of (get_or_create_user env chat_id b') = session_of b'" for b'
    by (simp add: get_or_create_user_def session_of_def fun_eq_iff split: option.splits)
  have st: "length (py_split text) \<le> 1 \<longrightarrow>
      session_of (fst (start env chat_id text b)) chat_id
        = session_of (reset_all_waiting_states chat_id b) chat_id"
    by (simp add: start_def Let_def session_create session_of_send)
  have face: "snd (faceshape_command criteria chat_id b) = Returned \<longrightarrow>
      session_of (fst (faceshape_command criteria chat_id b)) chat_id ''awaiting_analysis_method''
        = Some (VBool True) \<and>
      session_of (fst (faceshape_command criteria chat_id b)) chat_id ''current_feature''
        = Some (VStr ''2'') \<and>
      (k \<noteq> ''awaiting_analysis_method'' \<and> k \<noteq> ''current_feature'' \<longrightarrow>
         session_of (fst (faceshape_command criteria chat_id b)) chat_id k = session_of b chat_id k)"
    by (simp add: faceshape_command_def Let_def session_of_set_key session_of_send session_of_ensure
          user_data_ensure user_data_set_key_None user_data_send
          split: option.splits val.splits)
  from flags feature kept menu st face show ?thesis by blast
qed

section \<open>Routing of text messages\<close>

text \<open>
  Claim C3 at a concrete input. The chat waits for the choice of a credit package and
  the user types \<open>5\<close>. \<open>handle_text\<close> does not call \<open>handle_package_selection\<close>: the
  digit rule of lines 167-183 comes first, makes feature 5 the current feature, sends
  the prompt of the background feature and returns, and the package flag stays set.
  The digit \<open>2\<close>, which the digit rule lets pass, does reach the package handler.
\<close>

theorem package_selection_digit_hijack:
  "truthy (py_get (session_of (one_chat package_session 0) 1) ''waiting_for_package_selection'') \<and>
   snd (handle_text 1 ''5'' (one_chat package_session 0)) = None \<and>
   sent (fst (handle_text 1 ''5'' (one_chat package_session 0))) = [(1, Feature5Prompt)] \<and>
   session_of (fst (handle_text 1 ''5'' (one_chat package_session 0))) 1 ''current_feature''
     = Some (VStr ''5'') \<and>
   session_of (fst (handle_text 1 ''5'' (one_chat package_session 0))) 1
     ''waiting_for_package_selection'' = Some (VBool True) \<and>
   snd (handle_text 1 ''2'' (one_chat package_session 0)) = Some HandlePackageSelection"
  by (simp add: handle_text_def one_chat_def package_session_def startswith_def isdigit_def
        is_digit_char_def py_get_def session_of_def ensure_session_def set_key_def
        send_message_def Let_def)

text \<open>
  The other wait reason of the purchase flow does have priority: while the chat waits
  for the payment method, every text that is not a command goes to the handler of the
  payment method, a digit included.
\<close>

lemma payment_method_wait_first:
  "\<not> startswith text ''/'' \<Longrightarrow>
   truthy (py_get (session_of b chat_id) ''waiting_for_payment_method'') \<Longrightarrow>
   handle_text chat_id text b = (ensure_session chat_id b, Some HandlePaymentMethodSelection)"
  by (simp add: handle_text_def Let_def session_of_ensure)

section \<open>Entry of the hairstyle try-on\<close>

text \<open>
  Claim C6, as stated, fails for a user who has not had a face analysed yet: with a
  balance of 1 the answer is the request for a photo, not the message about credits.
\<close>

theorem try_hairstyle_no_photo_counterexample:
  "get_user_credits (one_chat Map.empty 1) 1 < 2 \<and>
   sent (try_hairstyle_command 1 (one_chat Map.empty 1)) = [(1, NoPhotoYet)]"
  by (simp add: try_hairstyle_command_def one_chat_def get_user_credits_def session_of_def
        send_message_def)

text \<open>
  Claim C6, amended. For a user whose session holds a face shape and whose balance is
  below 2, \<open>/try\<close> sends the message about insufficient credits with the balance and
  the cost 2, then the offer of the premium features, and changes nothing else: the
  balance, the transactions and the session are the same, and no input is awaited.
\<close>

theorem try_hairstyle_insufficient_credit:
  "user_data b chat_id \<noteq> None \<Longrightarrow> session_of b chat_id ''face_shape'' \<noteq> None \<Longrightarrow>
   get_user_credits b chat_id < 2 \<Longrightarrow>
   try_hairstyle_command chat_id b =
     b\<lparr>sent := sent b @ [(chat_id, NotEnoughCredits (get_user_credits b chat_id) 2),
                          (chat_id, PremiumFeatures)]\<rparr>"
  by (simp add: try_hairstyle_command_def send_message_def Let_def)

theorem try_hairstyle_insufficient_credit_witness:
  "user_data (one_chat busy_session 1) 1 \<noteq> None \<and>
   session_of (one_chat busy_session 1) 1 ''face_shape'' \<noteq> None \<and>
   get_user_credits (one_chat busy_session 1) 1 < 2 \<and>
   sent (try_hairstyle_command 1 (one_chat busy_session 1))
     = [(1, NotEnoughCredits 1 2), (1, PremiumFeatures)] \<and>
   accounts (try_hairstyle_command 1 (one_chat busy_session 1)) 1 = Some 1"
proof -
  have h1: "user_data (one_chat busy_session 1) 1 \<noteq> None"
    by (simp add: one_chat_def)
  have h2: "session_of (one_chat busy_session 1) 1 ''face_shape'' \<noteq> None"
    by (simp add: one_chat_def busy_session_def session_of_def)
  have h3: "get_user_credits (one_chat busy_session 1) 1 < 2"
    by (simp add: one_chat_def get_user_credits_def)
  have credits: "get_user_credits (one_chat busy_session 1) 1 = 1"
    by (simp add: one_chat_def get_user_credits_def)
  show ?thesis
    using try_hairstyle_insufficient_credit [OF h1 h2 h3] h1 h2 h3
    by (simp add: credits) (simp add: one_chat_def)
qed

section \<open>Payments\<close>

text \<open>
  Facts that the claims about payments share: the success status of a provider is
  \<open>completed\<close> or \<open>paid\<close>; a status other than the success status ends
  \<open>handle_successful_payment\<close> with one message and the result \<open>False\<close>; on a
  completed transaction both handlers only send a message, however often they run.
\<close>

lemma provider_status_success:
  "provider_status env payment_id = Ok (st, succ, data) \<Longrightarrow> succ = ''completed'' \<or> succ = ''paid''"
  by (auto simp: provider_status_def split: if_splits result.splits option.splits)

lemma handle_successful_payment_unconfirmed:
  assumes "provider_status env payment_id = Ok (st, succ, data)" and "st \<noteq> Some succ"
  shows "\<exists>r \<in> {ProviderErrorText, InvoiceExpired, PaymentCanceled, PaymentNotCompleted st succ}.
           handle_successful_payment env chat_id payment_id b = (send_message chat_id r b, False)"
  using assms by (simp add: handle_successful_payment_def)

lemma handle_successful_payment_completed:
  assumes "transactions b payment_id = Some t" and "tx_status t = ''completed''"
  shows "\<exists>r. fst (handle_successful_payment env chat_id payment_id b) = send_message chat_id r b"
  using assms
  by (auto simp: handle_successful_payment_def split: result.splits prod.splits)

lemma handle_stripe_payment_completed:
  assumes "transactions b payment_id = Some t" and "tx_status t = ''completed''"
  shows "handle_stripe_payment env chat_id payment_id b
           = (send_message chat_id (StripeAlreadyProcessed (get_user_credits b chat_id)) b, True)"
  using assms by (simp add: handle_stripe_payment_def Let_def)

lemma replay_successful_payment_completed:
  assumes "transactions b payment_id = Some t" and "tx_status t = ''completed''"
  shows "accounts (replay (map (\<lambda>env. handle_successful_payment env chat_id payment_id) envs) b)
           = accounts b \<and>
         transactions (replay (map (\<lambda>env. handle_successful_payment env chat_id payment_id) envs) b)
           = transactions b"
  using assms
proof (induction envs arbitrary: b)
  case Nil
  show ?case by simp
next
  case (Cons env envs)
  obtain r where step: "fst (handle_successful_payment env chat_id payment_id b) = send_message chat_id r b"
    using handle_successful_payment_completed [OF Cons.prems] by blast
  have "transactions (send_message chat_id r b) payment_id = Some t"
    using Cons.prems by (simp add: send_message_def)
  from Cons.IH [OF this Cons.prems(2)] show ?case
    by (simp add: step) (simp add: send_message_def)
qed

lemma replay_stripe_payment_completed:
  assumes "transactions b payment_id = Some t" and "tx_status t = ''completed''"
  shows "accounts (replay (map (\<lambda>env. handle_stripe_payment env chat_id payment_id) envs) b)
           = accounts b \<and>
         transactions (replay (map (\<lambda>env. handle_stripe_payment env chat_id payment_id) envs) b)
           = transactions b"
  using assms
proof (induction envs arbitrary: b)
  case Nil
  show ?case by simp
next
  case (Cons env envs)
  have step: "fst (handle_stripe_payment env chat_id payment_id b)
                = send_message chat_id (StripeAlreadyProcessed (get_user_credits b chat_id)) b"
    using handle_stripe_payment_completed [OF Cons.prems] by simp
  have "transactions (send_message chat_id (StripeAlreadyProcessed (get_user_credits b chat_id)) b)
          payment_id = Some t"
    using Cons.prems by (simp add: send_message_def)
  from Cons.IH [OF this Cons.prems(2)] show ?case
    by (simp add: step) (simp add: send_message_def)
qed

text \<open>
  Claim C1, as stated, fails in \<open>handle_successful_payment\<close>: the handler asks the
  provider before it looks at the transaction, so a replay during which the provider
  reports an error ends with the error message and the result \<open>False\<close>, although the
  transaction is completed.
\<close>

theorem replay_provider_error_counterexample:
  "transactions (paid_chat ''INV7'' ''completed'' 10) ''INV7''
     = Some \<lparr>tx_user = 1, tx_amount = 5, tx_credits = 10, tx_status = ''completed''\<rparr> \<and>
   snd (handle_successful_payment (providers_reporting ''error'') 1 ''INV7''
          (paid_chat ''INV7'' ''completed'' 10)) = False \<and>
   sent (fst (handle_successful_payment (providers_reporting ''error'') 1 ''INV7''
          (paid_chat ''INV7'' ''completed'' 10))) = [(1, ProviderErrorText)]"
  by (simp add: handle_successful_payment_def provider_status_def providers_reporting_def
        paid_chat_def startswith_def send_message_def)

text \<open>
  Claim C1, amended. For a payment id whose transaction is completed, any number of
  replays of \<open>handle_successful_payment\<close> or of \<open>handle_stripe_payment\<close>, whatever the
  providers answer in each, leaves every balance and every transaction as it was.
  \<open>handle_stripe_payment\<close> always reports that the payment was processed before;
  \<open>handle_successful_payment\<close> does so whenever the provider again reports the success
  status.
\<close>

theorem completed_payment_replay:
  assumes "transactions b payment_id = Some t" and "tx_status t = ''completed''"
  shows "accounts (replay (map (\<lambda>env. handle_successful_payment env chat_id payment_id) envs) b)
           = accounts b \<and>
         transactions (replay (map (\<lambda>env. handle_successful_payment env chat_id payment_id) envs) b)
           = transactions b \<and>
         accounts (replay (map (\<lambda>env. handle_stripe_payment env chat_id payment_id) envs) b)
           = accounts b \<and>
         transactions (replay (map (\<lambda>env. handle_stripe_payment env chat_id payment_id) envs) b)
           = transactions b \<and>
         handle_stripe_payment env chat_id payment_id b
           = (send_message chat_id (StripeAlreadyProcessed (get_user_credits b chat_id)) b, True) \<and>
         (provider_status env payment_id = Ok (Some succ, succ, data) \<longrightarrow>
            handle_successful_payment env chat_id payment_id b
              = (send_message chat_id
                   (PaymentAlreadyProcessed (tx_credits t) (get_user_credits b chat_id)) b, True))"
proof -
  have confirmed: "provider_status env payment_id = Ok (Some succ, succ, data) \<longrightarrow>
            handle_successful_payment env chat_id payment_id b
              = (send_message chat_id
                   (PaymentAlreadyProcessed (tx_credits t) (get_user_credits b chat_id)) b, True)"
  proof
    assume st: "provider_status env payment_id = Ok (Some succ, succ, data)"
    from provider_status_success [OF st] have "succ \<noteq> ''error''" by auto
    with st assms show "handle_successful_payment env chat_id payment_id b
              = (send_message chat_id
                   (PaymentAlreadyProcessed (tx_credits t) (get_user_credits b chat_id)) b, True)"
      by (simp add: handle_successful_payment_def)
  qed
  show ?thesis
    using replay_successful_payment_completed [OF assms, of chat_id envs]
      replay_stripe_payment_completed [OF assms, of chat_id envs]
      handle_stripe_payment_completed [OF assms, of env chat_id] confirmed
    by blast
qed

theorem completed_payment_replay_witness:
  "transactions (paid_chat ''INV7'' ''completed'' 10) ''INV7''
     = Some \<lparr>tx_user = 1, tx_amount = 5, tx_credits = 10, tx_status = ''completed''\<rparr> \<and>
   tx_status \<lparr>tx_user = 1, tx_amount = 5, tx_credits = 10, tx_status = ''completed''\<rparr> = ''completed'' \<and>
   provider_status (providers_reporting ''paid'') ''INV7'' = Ok (Some ''paid'', ''paid'', None) \<and>
   accounts (replay (map (\<lambda>env. handle_successful_payment env 1 ''INV7'')
                      [providers_reporting ''paid'', providers_reporting ''error'',
                       providers_reporting ''paid''])
               (paid_chat ''INV7'' ''completed'' 10)) 1 = Some 10 \<and>
   accounts (replay (map (\<lambda>env. handle_stripe_payment env 1 ''INV7'')
                      [providers_reporting ''paid'', providers_reporting ''error'',
                       providers_reporting ''paid''])
               (paid_chat ''INV7'' ''completed'' 10)) 1 = Some 10 \<and>
   snd (handle_successful_payment (providers_reporting ''paid'') 1 ''INV7''
          (paid_chat ''INV7'' ''completed'' 10)) \<and>
   sent (fst (handle_successful_payment (providers_reporting ''paid'') 1 ''INV7''
          (paid_chat ''INV7'' ''completed'' 10))) = [(1, PaymentAlreadyProcessed 10 10)]"
proof -
  have h1: "transactions (paid_chat ''INV7'' ''completed'' 10) ''INV7''
     = Some \<lparr>tx_user = 1, tx_amount = 5, tx_credits = 10, tx_status = ''completed''\<rparr>"
    by (simp add: paid_chat_def)
  have h2: "tx_status \<lparr>tx_user = 1, tx_amount = 5, tx_credits = 10, tx_status = ''completed''\<rparr>
     = ''completed''"
    by simp
  have h3: "provider_status (providers_reporting ''paid'') ''INV7'' = Ok (Some ''paid'', ''paid'', None)"
    by (simp add: provider_status_def providers_reporting_def startswith_def)
  have balance: "accounts (paid_chat ''INV7'' ''completed'' 10) 1 = Some 10"
    by (simp add: paid_chat_def)
  have credits: "get_user_credits (paid_chat ''INV7'' ''completed'' 10) 1 = 10"
    by (simp add: paid_chat_def get_user_credits_def)
  have no_sent: "sent (paid_chat ''INV7'' ''completed'' 10) = []"
    by (simp add: paid_chat_def)
  note fact = completed_payment_replay [OF h1 h2, of 1
      "[providers_reporting ''paid'', providers_reporting ''error'', providers_reporting ''paid'']"
      "providers_reporting ''paid''" "''paid''" None]
  from fact h3 have a: "accounts (replay (map (\<lambda>env. handle_successful_payment env 1 ''INV7'')
                      [providers_reporting ''paid'', providers_reporting ''error'',
                       providers_reporting ''paid''])
               (paid_chat ''INV7'' ''completed'' 10)) = accounts (paid_chat ''INV7'' ''completed'' 10)"
    and b: "accounts (replay (map (\<lambda>env. handle_stripe_payment env 1 ''INV7'')
                      [providers_reporting ''paid'', providers_reporting ''error'',
                       providers_reporting ''paid''])
               (paid_chat ''INV7'' ''completed'' 10)) = accounts (paid_chat ''INV7'' ''completed'' 10)"
    and c: "handle_successful_payment (providers_reporting ''paid'') 1 ''INV7''
          (paid_chat ''INV7'' ''completed'' 10)
        = (send_message 1 (PaymentAlreadyProcessed 10 10) (paid_chat ''INV7'' ''completed'' 10), True)"
    by (simp_all only: credits txn.simps)
  show ?thesis
    unfolding a b c using h1 h2 h3 balance by (simp add: send_message_def no_sent)
qed




text \<open>
  Claim C8. \<open>handle_successful_payment\<close> chooses the provider by the prefix of the
  payment id alone. \<open>TEST_\<close> and \<open>CP_\<close> ask the legacy crypto provider and succeed on
  \<open>completed\<close>. Otherwise \<open>cs_\<close> and \<open>pi_\<close> ask Stripe and succeed on \<open>completed\<close>:
  the status is the one Stripe's module reports, or, when that is \<open>None\<close>, \<open>completed\<close>
  for a session that the Stripe library shows as paid and \<open>pending\<close> for any other;
  an exception of either call makes the status \<open>error\<close>, and the data are those of
  Stripe's module. Every other id asks Crypto Bot and succeeds on \<open>paid\<close>. The handler
  returns \<open>True\<close>, or changes a balance or a transaction, only when the reported
  status is the success status of the chosen provider.
\<close>

theorem provider_chosen_by_prefix:
  "(startswith payment_id ''TEST_'' \<or> startswith payment_id ''CP_'' \<longrightarrow>
      provider_status env payment_id
        = (case crypto_check env payment_id of
             Exception \<Rightarrow> Exception
           | Ok status \<Rightarrow> Ok (status, ''completed'', None))) \<and>
   (\<not> startswith payment_id ''TEST_'' \<and> \<not> startswith payment_id ''CP_'' \<and>
    (startswith payment_id ''cs_'' \<or> startswith payment_id ''pi_'') \<longrightarrow>
      provider_status env payment_id
        = (case stripe_check env payment_id of
             Exception \<Rightarrow> Ok (Some ''error'', ''completed'', None)
           | Ok None \<Rightarrow>
               (case stripe_session_paid env payment_id of
                  Exception \<Rightarrow> Ok (Some ''error'', ''completed'', None)
                | Ok paid \<Rightarrow>
                    Ok (Some (if paid then ''completed'' else ''pending''), ''completed'',
                        (case stripe_data env payment_id of
                           Exception \<Rightarrow> None
                         | Ok data \<Rightarrow> data)))
           | Ok (Some status) \<Rightarrow>
               Ok (Some status, ''completed'',
                   (case stripe_data env payment_id of
                      Exception \<Rightarrow> None
                    | Ok data \<Rightarrow> data)))) \<and>
   (\<not> startswith payment_id ''TEST_'' \<and> \<not> startswith payment_id ''CP_'' \<and>
    \<not> startswith payment_id ''cs_'' \<and> \<not> startswith payment_id ''pi_'' \<longrightarrow>
      provider_status env payment_id
        = (case cryptobot_check env payment_id of
             Exception \<Rightarrow> Exception
           | Ok status \<Rightarrow>
               (case cryptobot_data env payment_id of
                  Exception \<Rightarrow> Exception
                | Ok data \<Rightarrow> Ok (status, ''paid'', data)))) \<and>
   (snd (handle_successful_payment env chat_id payment_id b) \<or>
    accounts (fst (handle_successful_payment env chat_id payment_id b)) \<noteq> accounts b \<or>
    transactions (fst (handle_successful_payment env chat_id payment_id b)) \<noteq> transactions b \<longrightarrow>
      (\<exists>succ data. provider_status env payment_id = Ok (Some succ, succ, data)))"
proof -
  have legacy: "startswith payment_id ''TEST_'' \<or> startswith payment_id ''CP_'' \<longrightarrow>
      provider_status env payment_id
        = (case crypto_check env payment_id of
             Exception \<Rightarrow> Exception
           | Ok status \<Rightarrow> Ok (status, ''completed'', None))"
    by (simp add: provider_status_def)
  have stripe: "\<not> startswith payment_id ''TEST_'' \<and> \<not> startswith payment_id ''CP_'' \<and>
    (startswith payment_id ''cs_'' \<or> startswith payment_id ''pi_'') \<longrightarrow>
      provider_status env payment_id
        = (case stripe_check env payment_id of
             Exception \<Rightarrow> Ok (Some ''error'', ''completed'', None)
           | Ok None \<Rightarrow>
               (case stripe_session_paid env payment_id of
                  Exception \<Rightarrow> Ok (Some ''error'', ''completed'', None)
                | Ok paid \<Rightarrow>
                    Ok (Some (if paid then ''completed'' else ''pending''), ''completed'',
                        (case stripe_data env payment_id of
                           Exception \<Rightarrow> None
                         | Ok data \<Rightarrow> data)))
           | Ok (Some status) \<Rightarrow>
               Ok (Some status, ''completed'',
                   (case stripe_data env payment_id of
                      Exception \<Rightarrow> None
                    | Ok data \<Rightarrow> data)))"
    by (simp add: provider_status_def split: result.splits option.splits)
  have cryptobot: "\<not> startswith payment_id ''TEST_'' \<and> \<not> startswith payment_id ''CP_'' \<and>
    \<not> startswith payment_id ''cs_'' \<and> \<not> startswith payment_id ''pi_'' \<longrightarrow>
      provider_status env payment_id
        = (case cryptobot_check env payment_id of
             Exception \<Rightarrow> Exception
           | Ok status \<Rightarrow>
               (case cryptobot_data env payment_id of
                  Exception \<Rightarrow> Exception
                | Ok data \<Rightarrow> Ok (status, ''paid'', data)))"
    by (simp add: provider_status_def)
  have only_confirmed: "snd (handle_successful_payment env chat_id payment_id b) \<or>
    accounts (fst (handle_successful_payment env chat_id payment_id b)) \<noteq> accounts b \<or>
    transactions (fst (handle_successful_payment env chat_id payment_id b)) \<noteq> transactions b \<longrightarrow>
      (\<exists>succ data. provider_status env payment_id = Ok (Some succ, succ, data))"
  proof (cases "provider_status env payment_id")
    case Exception
    then show ?thesis by (simp add: handle_successful_payment_def send_message_def)
  next
    case (Ok triple)
    obtain st succ data where triple: "triple = (st, succ, data)" by (cases triple) auto
    show ?thesis
    proof (cases "st = Some succ")
      case True
      with Ok triple show ?thesis by simp
    next
      case False
      from handle_successful_payment_unconfirmed [of env payment_id st succ data chat_id b] Ok triple False
      obtain r where "handle_successful_payment env chat_id payment_id b = (send_message chat_id r b, False)"
        by blast
      then show ?thesis by (simp add: send_message_def)
    qed
  qed
  from legacy stripe cryptobot only_confirmed show ?thesis by blast
qed

theorem provider_chosen_by_prefix_witness:
  "startswith ''TEST_1'' ''TEST_'' \<and>
   provider_status (providers_reporting ''completed'') ''TEST_1''
     = Ok (Some ''completed'', ''completed'', None) \<and>
   \<not> startswith ''cs_1'' ''TEST_'' \<and> \<not> startswith ''cs_1'' ''CP_'' \<and> startswith ''cs_1'' ''cs_'' \<and>
   provider_status (providers_reporting ''completed'') ''cs_1''
     = Ok (Some ''completed'', ''completed'', None) \<and>
   provider_status providers_down ''cs_1'' = Ok (Some ''error'', ''completed'', None) \<and>
   \<not> startswith ''INV7'' ''TEST_'' \<and> \<not> startswith ''INV7'' ''CP_'' \<and>
   \<not> startswith ''INV7'' ''cs_'' \<and> \<not> startswith ''INV7'' ''pi_'' \<and>
   provider_status (providers_reporting ''paid'') ''INV7'' = Ok (Some ''paid'', ''paid'', None) \<and>
   snd (handle_successful_payment (providers_reporting ''paid'') 1 ''INV7''
          (paid_chat ''INV7'' ''pending'' 10)) \<and>
   (\<exists>succ data. provider_status (providers_reporting ''paid'') ''INV7'' = Ok (Some succ, succ, data))"
proof -
  have p1: "startswith ''TEST_1'' ''TEST_''"
    by (simp add: startswith_def)
  have p2: "\<not> startswith ''cs_1'' ''TEST_'' \<and> \<not> startswith ''cs_1'' ''CP_'' \<and> startswith ''cs_1'' ''cs_''"
    by (simp add: startswith_def)
  have p3: "\<not> startswith ''INV7'' ''TEST_'' \<and> \<not> startswith ''INV7'' ''CP_'' \<and>
            \<not> startswith ''INV7'' ''cs_'' \<and> \<not> startswith ''INV7'' ''pi_''"
    by (simp add: startswith_def)
  have granted: "snd (handle_successful_payment (providers_reporting ''paid'') 1 ''INV7''
          (paid_chat ''INV7'' ''pending'' 10))"
    by (simp add: handle_successful_payment_def provider_status_def providers_reporting_def
          paid_chat_def startswith_def complete_transaction_def update_user_credits_def
          get_user_credits_def send_message_def)
  note a = provider_chosen_by_prefix [of "''TEST_1''" "providers_reporting ''completed''" 1
      "paid_chat ''INV7'' ''pending'' 10"]
  note b = provider_chosen_by_prefix [of "''cs_1''" "providers_reporting ''completed''" 1
      "paid_chat ''INV7'' ''pending'' 10"]
  note b' = provider_chosen_by_prefix [of "''cs_1''" providers_down 1
      "paid_chat ''INV7'' ''pending'' 10"]
  note c = provider_chosen_by_prefix [of "''INV7''" "providers_reporting ''paid''" 1
      "paid_chat ''INV7'' ''pending'' 10"]
  from a p1 have a1: "provider_status (providers_reporting ''completed'') ''TEST_1''
     = Ok (Some ''completed'', ''completed'', None)"
    by (simp add: providers_reporting_def)
  from b p2 have b1: "provider_status (providers_reporting ''completed'') ''cs_1''
     = Ok (Some ''completed'', ''completed'', None)"
    by (simp add: providers_reporting_def)
  from b' p2 have b2: "provider_status providers_down ''cs_1''
     = Ok (Some ''error'', ''completed'', None)"
    by (simp add: providers_down_def)
  from c p3 have c1: "provider_status (providers_reporting ''paid'') ''INV7''
     = Ok (Some ''paid'', ''paid'', None)"
    by (simp add: providers_reporting_def)
  from c granted have c2: "\<exists>succ data. provider_status (providers_reporting ''paid'') ''INV7''
     = Ok (Some succ, succ, data)"
    by blast
  show ?thesis
    using p1 p2 p3 granted a1 b1 b2 c1 c2 by blast
qed

section \<open>Photo without an active feature\<close>

text \<open>
  Claim C5, as stated, fails. A photo sent to a chat whose current feature is \<open>None\<close>
  is analysed: the bot sends the processing message, the image with the landmarks and
  the result of the face-shape analysis, and the session now holds the photo and the
  face shape. There is no message about a missing feature in \<open>process_photo\<close>.
\<close>

theorem photo_without_feature_counterexample:
  "py_get (session_of (one_chat idle_session 0) 1) ''current_feature'' = VNone \<and>
   snd (process_photo oval_photo 1 (one_chat idle_session 0)) = StandardAnalysis \<and>
   sent (fst (process_photo oval_photo 1 (one_chat idle_session 0)))
     = [(1, ProcessingText), (1, LandmarkPhoto [4, 5]), (1, AnalysisResult ''oval face'')] \<and>
   session_of (one_chat idle_session 0) 1 ''image_data'' = None \<and>
   session_of (fst (process_photo oval_photo 1 (one_chat idle_session 0))) 1 ''image_data''
     = Some (VBytes [1, 2, 3]) \<and>
   session_of (fst (process_photo oval_photo 1 (one_chat idle_session 0))) 1 ''face_shape''
     = Some (VStr ''OVAL'')"
proof -
  have route: "process_photo oval_photo 1 (one_chat idle_session 0)
                 = (standard_analysis oval_photo 1 (one_chat idle_session 0), StandardAnalysis)"
    by (simp add: process_photo_def one_chat_def idle_session_def session_of_def py_get_def)
  have before: "py_get (session_of (one_chat idle_session 0) 1) ''current_feature'' = VNone"
    "session_of (one_chat idle_session 0) 1 ''image_data'' = None"
    by (simp_all add: one_chat_def idle_session_def session_of_def py_get_def)
  have after: "sent (standard_analysis oval_photo 1 (one_chat idle_session 0))
     = [(1, ProcessingText), (1, LandmarkPhoto [4, 5]), (1, AnalysisResult ''oval face'')]"
    "session_of (standard_analysis oval_photo 1 (one_chat idle_session 0)) 1 ''image_data''
       = Some (VBytes [1, 2, 3])"
    "session_of (standard_analysis oval_photo 1 (one_chat idle_session 0)) 1 ''face_shape''
       = Some (VStr ''OVAL'')"
    by (simp_all add: standard_analysis_def oval_photo_def one_chat_def Let_def
          session_of_def ensure_session_def set_key_def send_message_def)
  show ?thesis unfolding route using before after by simp
qed

text \<open>
  What the standard analysis does to the state: it starts with the processing message,
  never touches a balance or a transaction, stores the downloaded photo, and, when a
  face and its landmarks are found, stores the face shape and the landmarks and ends
  with the result of the analysis.
\<close>

lemma standard_analysis_sent:
  "\<exists>rest. sent (standard_analysis env chat_id b) = sent b @ (chat_id, ProcessingText) # rest"
  by (simp add: standard_analysis_def Let_def set_key_frame ensure_session_frame
        send_message_frame error_reply_frame split: result.splits option.splits prod.splits)

lemma standard_analysis_ledger:
  "accounts (standard_analysis env chat_id b) = accounts b \<and>
   transactions (standard_analysis env chat_id b) = transactions b"
  by (simp add: standard_analysis_def Let_def set_key_frame ensure_session_frame
        send_message_frame error_reply_frame split: result.splits option.splits prod.splits)

lemma standard_analysis_image:
  "photos env \<noteq> [] \<Longrightarrow> download env = Ok downloaded \<Longrightarrow>
   session_of (standard_analysis env chat_id b) chat_id ''image_data'' = Some (VBytes downloaded)"
  by (simp add: standard_analysis_def Let_def error_reply_frame session_of_send session_of_set_key
        session_of_ensure user_data_ensure user_data_set_key_None user_data_send
        split: result.splits option.splits prod.splits)

lemma standard_analysis_face:
  "photos env \<noteq> [] \<Longrightarrow> download env = Ok downloaded \<Longrightarrow>
   analyze_face_shape env = Ok (Some shape, vis) \<Longrightarrow>
   get_recommendations env shape = Ok description \<Longrightarrow>
   face_mesh_landmarks env = Ok (Some pts) \<Longrightarrow>
   session_of (standard_analysis env chat_id b) chat_id ''face_shape'' = Some (VStr shape) \<and>
   session_of (standard_analysis env chat_id b) chat_id ''landmarks'' = Some (points_val pts) \<and>
   session_of (standard_analysis env chat_id b) chat_id ''waiting_for_hairstyle_selection''
     = Some (VBool False) \<and>
   last (sent (standard_analysis env chat_id b)) = (chat_id, AnalysisResult description)"
  by (simp add: standard_analysis_def Let_def session_of_send session_of_set_key
        session_of_ensure user_data_ensure user_data_set_key_None user_data_send
        send_message_frame)

text \<open>
  No payment handler writes a session, so the command \<open>/start\<close> leaves the sessions
  as its reset made them.
\<close>

lemma ledger_user_data:
  "user_data (update_user_credits c n b) = user_data b"
  "user_data (create_transaction c amount credits p b) = user_data b"
  "user_data (fst (complete_transaction p b)) = user_data b"
  "user_data (get_or_create_user env c b) = user_data b"
  "user_data (add_credits c n b) = user_data b"
  by (simp_all add: update_user_credits_def create_transaction_def complete_transaction_def
        get_or_create_user_def add_credits_def user_data_send split: option.splits)

lemma grant_from_package_user_data:
  "user_data (fst (grant_from_package env c p package amount b)) = user_data b"
  by (simp add: grant_from_package_def Let_def case_prod_beta user_data_send ledger_user_data
        split: result.splits)

lemma reconstruct_transaction_user_data:
  "user_data (fst (reconstruct_transaction env c p data b)) = user_data b"
  by (simp add: reconstruct_transaction_def user_data_send grant_from_package_user_data
        split: result.splits option.splits)

lemma handle_successful_payment_user_data:
  "user_data (fst (handle_successful_payment env c p b)) = user_data b"
  by (simp add: handle_successful_payment_def case_prod_beta user_data_send ledger_user_data
        reconstruct_transaction_user_data split: result.splits option.splits)

lemma handle_stripe_payment_user_data:
  "user_data (fst (handle_stripe_payment env c p b)) = user_data b"
  by (simp add: handle_stripe_payment_def Let_def user_data_send ledger_user_data
        split: result.splits option.splits)

lemma stripe_return_user_data:
  "user_data (fst (stripe_return env c p b)) = user_data b"
  by (simp add: stripe_return_def Let_def user_data_send ledger_user_data
        split: result.splits option.splits)

lemma start_user_data:
  "user_data (fst (start env c text b)) = user_data (reset_all_waiting_states c b)"
  by (simp add: start_def Let_def user_data_send ledger_user_data
        handle_successful_payment_user_data handle_stripe_payment_user_data
        stripe_return_user_data split: option.splits)

lemma start_session:
  "session_of (fst (start env c text b)) c = reset_session (session_of b c)"
  using start_user_data [of env c "text" b] session_of_reset [of c b]
  by (simp add: session_of_def)

text \<open>
  Claim C5, amended. A photo sent to a chat whose current feature is none of 2, 3, 4, 5
  and 6 (in particular \<open>None\<close>, or no session at all) gets the standard face-shape
  analysis, and so does a photo that follows the reset or the command \<open>/start\<close>,
  whatever flow they interrupted. The standard analysis first sends the processing
  message and never changes a balance or a transaction; when the photo is downloaded
  it is stored as \<open>image_data\<close>; when a face and its landmarks are found, the face
  shape and the landmarks are stored for the hairstyle try-on,
  \<open>waiting_for_hairstyle_selection\<close> is set to \<open>False\<close>, and the last message is the
  result of the analysis.
\<close>

theorem photo_without_feature_standard_analysis:
  "(py_get (session_of b chat_id) ''current_feature''
      \<notin> {VStr ''3'', VStr ''5'', VStr ''6'', VStr ''2'', VStr ''4''} \<longrightarrow>
      process_photo env chat_id b = (standard_analysis env chat_id b, StandardAnalysis)) \<and>
   process_photo env chat_id (reset_all_waiting_states chat_id b)
     = (standard_analysis env chat_id (reset_all_waiting_states chat_id b), StandardAnalysis) \<and>
   process_photo env chat_id (fst (start payments chat_id command b))
     = (standard_analysis env chat_id (fst (start payments chat_id command b)),
        StandardAnalysis) \<and>
   (\<exists>rest. sent (standard_analysis env chat_id b) = sent b @ (chat_id, ProcessingText) # rest) \<and>
   accounts (standard_analysis env chat_id b) = accounts b \<and>
   transactions (standard_analysis env chat_id b) = transactions b \<and>
   (photos env \<noteq> [] \<and> download env = Ok downloaded \<longrightarrow>
      session_of (standard_analysis env chat_id b) chat_id ''image_data'' = Some (VBytes downloaded)) \<and>
   (photos env \<noteq> [] \<and> download env = Ok downloaded \<and>
    analyze_face_shape env = Ok (Some shape, vis) \<and>
    get_recommendations env shape = Ok description \<and>
    face_mesh_landmarks env = Ok (Some pts) \<longrightarrow>
      session_of (standard_analysis env chat_id b) chat_id ''face_shape'' = Some (VStr shape) \<and>
      session_of (standard_analysis env chat_id b) chat_id ''landmarks'' = Some (points_val pts) \<and>
      session_of (standard_analysis env chat_id b) chat_id ''waiting_for_hairstyle_selection''
        = Some (VBool False) \<and>
      last (sent (standard_analysis env chat_id b)) = (chat_id, AnalysisResult description))"
proof -
  have route: "py_get (session_of b chat_id) ''current_feature''
      \<notin> {VStr ''3'', VStr ''5'', VStr ''6'', VStr ''2'', VStr ''4''} \<longrightarrow>
      process_photo env chat_id b = (standard_analysis env chat_id b, StandardAnalysis)"
    by (simp add: process_photo_def Let_def)
  have after_reset: "process_photo env chat_id (reset_all_waiting_states chat_id b)
     = (standard_analysis env chat_id (reset_all_waiting_states chat_id b), StandardAnalysis)"
    by (simp add: process_photo_def Let_def session_of_reset reset_session_apply py_get_def)
  have after_start: "process_photo env chat_id (fst (start payments chat_id command b))
     = (standard_analysis env chat_id (fst (start payments chat_id command b)),
        StandardAnalysis)"
    by (simp add: process_photo_def Let_def start_session reset_session_apply py_get_def)
  show ?thesis
    using route after_reset after_start standard_analysis_sent [of env chat_id b]
      standard_analysis_ledger [of env chat_id b]
      standard_analysis_image [of env downloaded chat_id b]
      standard_analysis_face [of env downloaded shape vis description pts chat_id b]
    by blast
qed

theorem photo_without_feature_standard_analysis_witness:
  "py_get (session_of (one_chat idle_session 0) 1) ''current_feature''
      \<notin> {VStr ''3'', VStr ''5'', VStr ''6'', VStr ''2'', VStr ''4''} \<and>
   process_photo oval_photo 1 (one_chat idle_session 0)
     = (standard_analysis oval_photo 1 (one_chat idle_session 0), StandardAnalysis) \<and>
   py_get (session_of (one_chat busy_session 0) 1) ''current_feature'' = VStr ''5'' \<and>
   snd (process_photo oval_photo 1
          (fst (start providers_down 1 ''/start'' (one_chat busy_session 0))))
     = StandardAnalysis \<and>
   photos oval_photo \<noteq> [] \<and> download oval_photo = Ok [1, 2, 3] \<and>
   analyze_face_shape oval_photo = Ok (Some ''OVAL'', [4, 5]) \<and>
   get_recommendations oval_photo ''OVAL'' = Ok ''oval face'' \<and>
   face_mesh_landmarks oval_photo = Ok (Some [(10, 20)]) \<and>
   session_of (standard_analysis oval_photo 1 (one_chat idle_session 0)) 1 ''image_data''
     = Some (VBytes [1, 2, 3]) \<and>
   session_of (standard_analysis oval_photo 1 (one_chat idle_session 0)) 1 ''face_shape''
     = Some (VStr ''OVAL'') \<and>
   session_of (standard_analysis oval_photo 1 (one_chat idle_session 0)) 1 ''landmarks''
     = Some (points_val [(10, 20)]) \<and>
   last (sent (standard_analysis oval_photo 1 (one_chat idle_session 0)))
     = (1, AnalysisResult ''oval face'')"
proof -
  have feature: "py_get (session_of (one_chat idle_session 0) 1) ''current_feature''
      \<notin> {VStr ''3'', VStr ''5'', VStr ''6'', VStr ''2'', VStr ''4''}"
    by (simp add: one_chat_def idle_session_def session_of_def py_get_def)
  have busy: "py_get (session_of (one_chat busy_session 0) 1) ''current_feature'' = VStr ''5''"
    by (simp add: one_chat_def busy_session_def session_of_def py_get_def)
  have photo: "photos oval_photo \<noteq> []" "download oval_photo = Ok [1, 2, 3]"
    "analyze_face_shape oval_photo = Ok (Some ''OVAL'', [4, 5])"
    "get_recommendations oval_photo ''OVAL'' = Ok ''oval face''"
    "face_mesh_landmarks oval_photo = Ok (Some [(10, 20)])"
    by (simp_all add: oval_photo_def)
  have after_start: "snd (process_photo oval_photo 1
          (fst (start providers_down 1 ''/start'' (one_chat busy_session 0))))
     = StandardAnalysis"
    using photo_without_feature_standard_analysis
      [where env = oval_photo and chat_id = 1 and b = "one_chat busy_session 0"
         and payments = providers_down and command = "''/start''",
       THEN conjunct2, THEN conjunct2, THEN conjunct1]
    by simp
  show ?thesis
    using feature busy after_start photo
      photo_without_feature_standard_analysis
        [where b = "one_chat idle_session 0" and chat_id = 1 and env = oval_photo
           and downloaded = "[1, 2, 3]" and shape = "''OVAL''" and vis = "[4, 5]"
           and description = "''oval face''" and pts = "[(10, 20)]"]
    by blast
qed

section \<open>Failed hairstyle generation\<close>

text \<open>
  Claim C7, as stated, fails in its last part. The chat waits for the texture of the
  chosen hairstyle; the generation service returns \<open>None\<close>. No credit is taken and the
  error text is sent, but the session no longer waits: \<open>generate_hairstyle\<close> has set
  \<open>waiting_for_hairstyle_selection\<close> to \<open>False\<close> and \<open>customization_state\<close> to
  \<open>selecting_style\<close> on entry.
\<close>

theorem failed_generation_counterexample:
  "apply_hairstyle failing_generation = Ok None \<and>
   session_of (one_chat texture_session 5) 1 ''waiting_for_hairstyle_selection''
     = Some (VBool True) \<and>
   session_of (one_chat texture_session 5) 1 ''customization_state''
     = Some (VStr ''selecting_texture'') \<and>
   snd (generate_hairstyle failing_generation 1 (one_chat texture_session 5)) = Returned \<and>
   sent (fst (generate_hairstyle failing_generation 1 (one_chat texture_session 5)))
     = [(1, HairstyleGenerating), (1, ErrorText)] \<and>
   get_user_credits (fst (generate_hairstyle failing_generation 1 (one_chat texture_session 5))) 1
     = 5 \<and>
   session_of (fst (generate_hairstyle failing_generation 1 (one_chat texture_session 5))) 1
     ''waiting_for_hairstyle_selection'' = Some (VBool False) \<and>
   session_of (fst (generate_hairstyle failing_generation 1 (one_chat texture_session 5))) 1
     ''customization_state'' = Some (VStr ''selecting_style'')"
  by (simp add: generate_hairstyle_def one_chat_def texture_session_def failing_generation_def
        set_key_def session_of_def selected_hairstyle_def py_subscript_def as_index_def
        py_index_def send_message_def py_get_def get_user_credits_def Let_def)

lemma selected_hairstyle_cong:
  "s ''selected_hairstyle_index'' = s' ''selected_hairstyle_index'' \<Longrightarrow>
   s ''selected_hairstyle_name'' = s' ''selected_hairstyle_name'' \<Longrightarrow>
   s ''hairstyle_objects'' = s' ''hairstyle_objects'' \<Longrightarrow>
   selected_hairstyle s = selected_hairstyle s'"
  by (simp add: selected_hairstyle_def)

lemma generate_hairstyle_transactions:
  "transactions (fst (generate_hairstyle env c b)) = transactions b"
  by (simp add: generate_hairstyle_def Let_def set_key_frame send_message_frame use_credit_frame
        split: result.splits option.splits)

lemma generate_hairstyle_accounts:
  "\<forall>picture. apply_hairstyle env = Ok (Some picture) \<longrightarrow> picture = [] \<Longrightarrow>
   accounts (fst (generate_hairstyle env c b)) = accounts b"
  by (simp add: generate_hairstyle_def Let_def set_key_frame send_message_frame
        split: result.splits option.splits)

lemma generate_hairstyle_session:
  assumes "user_data b c \<noteq> None"
  shows "session_of (fst (generate_hairstyle env c b)) c k =
     (if k = ''landmarks'' then session_of (fst (generate_hairstyle env c b)) c k
      else if k = ''customization_state'' then Some (VStr ''selecting_style'')
      else if k = ''waiting_for_hairstyle_selection'' then Some (VBool False)
      else session_of b c k)"
proof -
  from assms obtain s0 where s0: "user_data b c = Some s0" by auto
  show ?thesis
    by (simp add: generate_hairstyle_def Let_def s0 session_of_set_key session_of_send
          user_data_set_key_None user_data_send use_credit_frame
          split: result.splits option.splits)
qed

lemma use_credit_accounts:
  "accounts b' = accounts b \<Longrightarrow>
   accounts (fst (use_credit c n b')) = accounts (fst (use_credit c n b)) \<and>
   get_user_credits (fst (use_credit c n b')) c = get_user_credits (fst (use_credit c n b)) c"
  by (simp add: use_credit_def get_user_credits_def update_user_credits_def)

lemma generate_hairstyle_reaches_call:
  assumes "user_data b c \<noteq> None" "selected_hairstyle (session_of b c) \<noteq> None" "prompt_built env"
    "session_of b c ''image_data'' \<noteq> None" "session_of b c ''face_shape'' \<noteq> None"
    "hairstyles_listed env"
    "as_index (py_get (session_of b c) ''selected_hairstyle_index'') \<noteq> None"
  shows "\<exists>b4. accounts b4 = accounts b \<and> sent b4 = sent b @ [(c, HairstyleGenerating)] \<and>
     generate_hairstyle env c b =
       (case apply_hairstyle env of
          Exception \<Rightarrow> (send_message c ErrorText b4, Returned)
        | Ok None \<Rightarrow> (send_message c ErrorText b4, Returned)
        | Ok (Some result_image_bytes) \<Rightarrow>
            if result_image_bytes = [] then (send_message c ErrorText b4, Returned)
            else (send_message c
                    (HairstylePhoto result_image_bytes
                       (get_user_credits (fst (use_credit c 2 b4)) c))
                    (fst (use_credit c 2 b4)), Returned))"
proof -
  from assms(1) obtain s0 where s0: "user_data b c = Some s0" by auto
  let ?b2 = "set_key c ''customization_state'' (VStr ''selecting_style'')
               (set_key c ''waiting_for_hairstyle_selection'' (VBool False) b)"
  have keys: "session_of ?b2 c ''selected_hairstyle_index'' = session_of b c ''selected_hairstyle_index''"
    "session_of ?b2 c ''selected_hairstyle_name'' = session_of b c ''selected_hairstyle_name''"
    "session_of ?b2 c ''hairstyle_objects'' = session_of b c ''hairstyle_objects''"
    "session_of ?b2 c ''image_data'' = session_of b c ''image_data''"
    "session_of ?b2 c ''face_shape'' = session_of b c ''face_shape''"
    by (simp_all add: s0 session_of_set_key user_data_set_key_None)
  have sel: "selected_hairstyle (session_of ?b2 c) = selected_hairstyle (session_of b c)"
    by (rule selected_hairstyle_cong) (simp_all add: keys)
  have idx: "py_get (session_of ?b2 c) ''selected_hairstyle_index''
               = py_get (session_of b c) ''selected_hairstyle_index''"
    by (simp add: py_get_def keys)
  let ?b3 = "send_message c HairstyleGenerating ?b2"
  let ?s = "session_of ?b2 c"
  let ?b4 = "if ?s ''landmarks'' = None \<or> \<not> truthy (py_get ?s ''landmarks'')
             then set_key c ''landmarks''
                    (case reanalysis_landmarks env of
                       Ok landmarks \<Rightarrow> if truthy landmarks then landmarks else VNone
                     | Exception \<Rightarrow> VNone) ?b3
             else ?b3"
  have frame: "accounts ?b4 = accounts b" "sent ?b4 = sent b @ [(c, HairstyleGenerating)]"
    by (simp_all add: set_key_frame send_message_frame)
  have run: "generate_hairstyle env c b =
       (case apply_hairstyle env of
          Exception \<Rightarrow> (send_message c ErrorText ?b4, Returned)
        | Ok None \<Rightarrow> (send_message c ErrorText ?b4, Returned)
        | Ok (Some result_image_bytes) \<Rightarrow>
            if result_image_bytes = [] then (send_message c ErrorText ?b4, Returned)
            else (send_message c
                    (HairstylePhoto result_image_bytes
                       (get_user_credits (fst (use_credit c 2 ?b4)) c))
                    (fst (use_credit c 2 ?b4)), Returned))"
    unfolding generate_hairstyle_def Let_def sel idx keys
    using assms by (simp add: s0 del: not_None_eq)
  from frame run show ?thesis by blast
qed

lemma generate_hairstyle_failure:
  assumes "user_data b c \<noteq> None" "selected_hairstyle (session_of b c) \<noteq> None" "prompt_built env"
    "session_of b c ''image_data'' \<noteq> None" "session_of b c ''face_shape'' \<noteq> None"
    "hairstyles_listed env"
    "as_index (py_get (session_of b c) ''selected_hairstyle_index'') \<noteq> None"
    "\<forall>picture. apply_hairstyle env = Ok (Some picture) \<longrightarrow> picture = []"
  shows "snd (generate_hairstyle env c b) = Returned \<and>
     sent (fst (generate_hairstyle env c b))
       = sent b @ [(c, HairstyleGenerating), (c, ErrorText)] \<and>
     accounts (fst (generate_hairstyle env c b)) = accounts b"
proof -
  from generate_hairstyle_reaches_call [OF assms(1-7)] obtain b4 where
    b4: "accounts b4 = accounts b" "sent b4 = sent b @ [(c, HairstyleGenerating)]"
    and run: "generate_hairstyle env c b =
       (case apply_hairstyle env of
          Exception \<Rightarrow> (send_message c ErrorText b4, Returned)
        | Ok None \<Rightarrow> (send_message c ErrorText b4, Returned)
        | Ok (Some result_image_bytes) \<Rightarrow>
            if result_image_bytes = [] then (send_message c ErrorText b4, Returned)
            else (send_message c
                    (HairstylePhoto result_image_bytes
                       (get_user_credits (fst (use_credit c 2 b4)) c))
                    (fst (use_credit c 2 b4)), Returned))"
    by blast
  from assms(8) have "generate_hairstyle env c b = (send_message c ErrorText b4, Returned)"
    unfolding run by (simp split: result.splits option.splits)
  then show ?thesis by (simp add: send_message_frame b4)
qed

lemma generate_hairstyle_success:
  assumes "user_data b c \<noteq> None" "selected_hairstyle (session_of b c) \<noteq> None" "prompt_built env"
    "session_of b c ''image_data'' \<noteq> None" "session_of b c ''face_shape'' \<noteq> None"
    "hairstyles_listed env"
    "as_index (py_get (session_of b c) ''selected_hairstyle_index'') \<noteq> None"
    "apply_hairstyle env = Ok (Some picture)" "picture \<noteq> []"
  shows "snd (generate_hairstyle env c b) = Returned \<and>
     sent (fst (generate_hairstyle env c b))
       = sent b @ [(c, HairstyleGenerating),
                   (c, HairstylePhoto picture (get_user_credits (fst (use_credit c 2 b)) c))] \<and>
     accounts (fst (generate_hairstyle env c b)) = accounts (fst (use_credit c 2 b))"
proof -
  from generate_hairstyle_reaches_call [OF assms(1-7)] obtain b4 where
    b4: "accounts b4 = accounts b" "sent b4 = sent b @ [(c, HairstyleGenerating)]"
    and run: "generate_hairstyle env c b =
       (case apply_hairstyle env of
          Exception \<Rightarrow> (send_message c ErrorText b4, Returned)
        | Ok None \<Rightarrow> (send_message c ErrorText b4, Returned)
        | Ok (Some result_image_bytes) \<Rightarrow>
            if result_image_bytes = [] then (send_message c ErrorText b4, Returned)
            else (send_message c
                    (HairstylePhoto result_image_bytes
                       (get_user_credits (fst (use_credit c 2 b4)) c))
                    (fst (use_credit c 2 b4)), Returned))"
    by blast
  have "generate_hairstyle env c b =
      (send_message c (HairstylePhoto picture (get_user_credits (fst (use_credit c 2 b4)) c))
         (fst (use_credit c 2 b4)), Returned)"
    unfolding run by (simp add: assms(8,9))
  then show ?thesis
    using use_credit_accounts [OF b4(1), of c 2]
    by (simp add: send_message_frame use_credit_frame b4)
qed

text \<open>
  Claim C7, amended. A call of \<open>generate_hairstyle\<close> changes a balance only after
  \<open>apply_hairstyle\<close> has returned an image that is not empty, and it never changes a
  transaction. In a chat without a session the first write raises and nothing changes.
  In a chat with a session, every call, failed or not, leaves
  \<open>waiting_for_hairstyle_selection\<close> at \<open>False\<close> and \<open>customization_state\<close> at
  \<open>selecting_style\<close>, whatever they were, and every other key but \<open>landmarks\<close> as it
  was. When the call of \<open>apply_hairstyle\<close> is reached (the selected hairstyle, the
  photo and the face shape are stored, the index is a number, and the prompt and the
  list of hairstyles are built without an exception) and it raises or returns \<open>None\<close>
  or an empty image, the user gets the message that the generation has started and
  then the error text, and no balance changes; when it returns an image, the user gets
  the image with the new balance, and the balances are those that \<open>use_credit\<close> leaves
  for a charge of 2 credits.
\<close>

theorem generation_charges_only_on_result:
  "(accounts (fst (generate_hairstyle env chat_id b)) \<noteq> accounts b \<longrightarrow>
      (\<exists>result_image_bytes. result_image_bytes \<noteq> [] \<and>
         apply_hairstyle env = Ok (Some result_image_bytes))) \<and>
   transactions (fst (generate_hairstyle env chat_id b)) = transactions b \<and>
   (user_data b chat_id = None \<longrightarrow> generate_hairstyle env chat_id b = (b, Raised)) \<and>
   (user_data b chat_id \<noteq> None \<longrightarrow>
      session_of (fst (generate_hairstyle env chat_id b)) chat_id ''waiting_for_hairstyle_selection'' = Some (VBool False) \<and>
      session_of (fst (generate_hairstyle env chat_id b)) chat_id ''customization_state'' = Some (VStr ''selecting_style'')) \<and>
   (user_data b chat_id \<noteq> None \<and>
    k \<notin> {''landmarks'', ''customization_state'', ''waiting_for_hairstyle_selection''} \<longrightarrow>
      session_of (fst (generate_hairstyle env chat_id b)) chat_id k = session_of b chat_id k) \<and>
   (user_data b chat_id \<noteq> None \<and> selected_hairstyle (session_of b chat_id) \<noteq> None \<and>
    prompt_built env \<and> session_of b chat_id ''image_data'' \<noteq> None \<and>
    session_of b chat_id ''face_shape'' \<noteq> None \<and> hairstyles_listed env \<and>
    as_index (py_get (session_of b chat_id) ''selected_hairstyle_index'') \<noteq> None \<and>
    apply_hairstyle env \<in> {Exception, Ok None, Ok (Some [])} \<longrightarrow>
      snd (generate_hairstyle env chat_id b) = Returned \<and>
      sent (fst (generate_hairstyle env chat_id b)) = sent b @ [(chat_id, HairstyleGenerating), (chat_id, ErrorText)] \<and>
      accounts (fst (generate_hairstyle env chat_id b)) = accounts b) \<and>
   (user_data b chat_id \<noteq> None \<and> selected_hairstyle (session_of b chat_id) \<noteq> None \<and>
    prompt_built env \<and> session_of b chat_id ''image_data'' \<noteq> None \<and>
    session_of b chat_id ''face_shape'' \<noteq> None \<and> hairstyles_listed env \<and>
    as_index (py_get (session_of b chat_id) ''selected_hairstyle_index'') \<noteq> None \<and>
    apply_hairstyle env = Ok (Some picture) \<and> picture \<noteq> [] \<longrightarrow>
      snd (generate_hairstyle env chat_id b) = Returned \<and>
      sent (fst (generate_hairstyle env chat_id b))
        = sent b @ [(chat_id, HairstyleGenerating),
                    (chat_id, HairstylePhoto picture
                       (get_user_credits (fst (use_credit chat_id 2 b)) chat_id))] \<and>
      accounts (fst (generate_hairstyle env chat_id b)) = accounts (fst (use_credit chat_id 2 b)))"
proof -
  have only_after: "accounts (fst (generate_hairstyle env chat_id b)) \<noteq> accounts b \<longrightarrow>
      (\<exists>result_image_bytes. result_image_bytes \<noteq> [] \<and>
         apply_hairstyle env = Ok (Some result_image_bytes))"
    using generate_hairstyle_accounts [of env chat_id b] by blast
  have ledger: "transactions (fst (generate_hairstyle env chat_id b)) = transactions b"
    by (rule generate_hairstyle_transactions)
  have no_session: "user_data b chat_id = None \<longrightarrow> generate_hairstyle env chat_id b = (b, Raised)"
    by (simp add: generate_hairstyle_def)
  have wait_state: "user_data b chat_id \<noteq> None \<longrightarrow>
      session_of (fst (generate_hairstyle env chat_id b)) chat_id ''waiting_for_hairstyle_selection'' = Some (VBool False) \<and>
      session_of (fst (generate_hairstyle env chat_id b)) chat_id ''customization_state'' = Some (VStr ''selecting_style'')"
    using generate_hairstyle_session [of b chat_id env "''waiting_for_hairstyle_selection''"]
      generate_hairstyle_session [of b chat_id env "''customization_state''"]
    by simp
  have others: "user_data b chat_id \<noteq> None \<and>
    k \<notin> {''landmarks'', ''customization_state'', ''waiting_for_hairstyle_selection''} \<longrightarrow>
      session_of (fst (generate_hairstyle env chat_id b)) chat_id k = session_of b chat_id k"
    using generate_hairstyle_session [of b chat_id env k] by auto
  have failure: "user_data b chat_id \<noteq> None \<and> selected_hairstyle (session_of b chat_id) \<noteq> None \<and>
    prompt_built env \<and> session_of b chat_id ''image_data'' \<noteq> None \<and>
    session_of b chat_id ''face_shape'' \<noteq> None \<and> hairstyles_listed env \<and>
    as_index (py_get (session_of b chat_id) ''selected_hairstyle_index'') \<noteq> None \<and>
    apply_hairstyle env \<in> {Exception, Ok None, Ok (Some [])} \<longrightarrow>
      snd (generate_hairstyle env chat_id b) = Returned \<and>
      sent (fst (generate_hairstyle env chat_id b)) = sent b @ [(chat_id, HairstyleGenerating), (chat_id, ErrorText)] \<and>
      accounts (fst (generate_hairstyle env chat_id b)) = accounts b"
    using generate_hairstyle_failure [of b chat_id env] by auto
  have success: "user_data b chat_id \<noteq> None \<and> selected_hairstyle (session_of b chat_id) \<noteq> None \<and>
    prompt_built env \<and> session_of b chat_id ''image_data'' \<noteq> None \<and>
    session_of b chat_id ''face_shape'' \<noteq> None \<and> hairstyles_listed env \<and>
    as_index (py_get (session_of b chat_id) ''selected_hairstyle_index'') \<noteq> None \<and>
    apply_hairstyle env = Ok (Some picture) \<and> picture \<noteq> [] \<longrightarrow>
      snd (generate_hairstyle env chat_id b) = Returned \<and>
      sent (fst (generate_hairstyle env chat_id b))
        = sent b @ [(chat_id, HairstyleGenerating),
                    (chat_id, HairstylePhoto picture
                       (get_user_credits (fst (use_credit chat_id 2 b)) chat_id))] \<and>
      accounts (fst (generate_hairstyle env chat_id b)) = accounts (fst (use_credit chat_id 2 b))"
    using generate_hairstyle_success [of b chat_id env picture] by blast
  show ?thesis
    by (intro conjI) (fact only_after ledger no_session wait_state others failure success)+
qed

theorem generation_charges_only_on_result_witness:
  "(accounts (fst (generate_hairstyle working_generation 1 (one_chat texture_session 5))) \<noteq> accounts (one_chat texture_session 5) \<and>
    (\<exists>result_image_bytes. result_image_bytes \<noteq> [] \<and>
       apply_hairstyle working_generation = Ok (Some result_image_bytes))) \<and>
   (user_data empty_bot 1 = None \<and>
    generate_hairstyle failing_generation 1 empty_bot = (empty_bot, Raised)) \<and>
   (user_data (one_chat texture_session 5) 1 \<noteq> None \<and>
   selected_hairstyle (session_of (one_chat texture_session 5) 1) \<noteq> None \<and>
   session_of (one_chat texture_session 5) 1 ''image_data'' \<noteq> None \<and>
   session_of (one_chat texture_session 5) 1 ''face_shape'' \<noteq> None \<and>
   as_index (py_get (session_of (one_chat texture_session 5) 1) ''selected_hairstyle_index'') \<noteq> None) \<and>
   session_of (one_chat texture_session 5) 1 ''waiting_for_hairstyle_selection'' = Some (VBool True) \<and>
   session_of (fst (generate_hairstyle failing_generation 1 (one_chat texture_session 5))) 1 ''waiting_for_hairstyle_selection''
     = Some (VBool False) \<and>
   session_of (fst (generate_hairstyle failing_generation 1 (one_chat texture_session 5))) 1 ''customization_state''
     = Some (VStr ''selecting_style'') \<and>
   session_of (fst (generate_hairstyle failing_generation 1 (one_chat texture_session 5))) 1 ''face_shape'' = Some (VStr ''OVAL'') \<and>
   (prompt_built failing_generation \<and> hairstyles_listed failing_generation \<and>
    apply_hairstyle failing_generation \<in> {Exception, Ok None, Ok (Some [])} \<and>
    snd (generate_hairstyle failing_generation 1 (one_chat texture_session 5)) = Returned \<and>
    sent (fst (generate_hairstyle failing_generation 1 (one_chat texture_session 5))) = [(1, HairstyleGenerating), (1, ErrorText)] \<and>
    accounts (fst (generate_hairstyle failing_generation 1 (one_chat texture_session 5))) = accounts (one_chat texture_session 5)) \<and>
   (prompt_built working_generation \<and> hairstyles_listed working_generation \<and>
    apply_hairstyle working_generation = Ok (Some [7, 8, 9]) \<and>
    snd (generate_hairstyle working_generation 1 (one_chat texture_session 5)) = Returned \<and>
    sent (fst (generate_hairstyle working_generation 1 (one_chat texture_session 5)))
      = [(1, HairstyleGenerating), (1, HairstylePhoto [7, 8, 9] 3)] \<and>
    accounts (fst (generate_hairstyle working_generation 1 (one_chat texture_session 5))) = [1 \<mapsto> 3])"
proof -
  note only_after = generation_charges_only_on_result
    [of working_generation 1 "one_chat texture_session 5" "''face_shape''" "[7, 8, 9]", THEN conjunct1]
  note no_session = generation_charges_only_on_result
    [of failing_generation 1 "empty_bot" "''face_shape''" "[7, 8, 9]", THEN conjunct2, THEN conjunct2, THEN conjunct1]
  note wait_state = generation_charges_only_on_result
    [of failing_generation 1 "one_chat texture_session 5" "''face_shape''" "[7, 8, 9]", THEN conjunct2, THEN conjunct2, THEN conjunct2, THEN conjunct1]
  note others = generation_charges_only_on_result
    [of failing_generation 1 "one_chat texture_session 5" "''face_shape''" "[7, 8, 9]", THEN conjunct2, THEN conjunct2, THEN conjunct2, THEN conjunct2, THEN conjunct1]
  note failure = generation_charges_only_on_result
    [of failing_generation 1 "one_chat texture_session 5" "''face_shape''" "[7, 8, 9]", THEN conjunct2, THEN conjunct2, THEN conjunct2, THEN conjunct2, THEN conjunct2, THEN conjunct1]
  note success = generation_charges_only_on_result
    [of working_generation 1 "one_chat texture_session 5" "''face_shape''" "[7, 8, 9]", THEN conjunct2, THEN conjunct2, THEN conjunct2, THEN conjunct2, THEN conjunct2, THEN conjunct2]
  have ready: "user_data (one_chat texture_session 5) 1 \<noteq> None \<and>
   selected_hairstyle (session_of (one_chat texture_session 5) 1) \<noteq> None \<and>
   session_of (one_chat texture_session 5) 1 ''image_data'' \<noteq> None \<and>
   session_of (one_chat texture_session 5) 1 ''face_shape'' \<noteq> None \<and>
   as_index (py_get (session_of (one_chat texture_session 5) 1) ''selected_hairstyle_index'') \<noteq> None"
    by (simp add: one_chat_def texture_session_def session_of_def py_get_def selected_hairstyle_def py_subscript_def as_index_def py_index_def)
  have session: "user_data (one_chat texture_session 5) 1 \<noteq> None"
    by (simp add: one_chat_def)
  have before: "session_of (one_chat texture_session 5) 1 ''waiting_for_hairstyle_selection'' = Some (VBool True)"
    "session_of (one_chat texture_session 5) 1 ''face_shape'' = Some (VStr ''OVAL'')"
    "sent (one_chat texture_session 5) = []" "accounts (one_chat texture_session 5) = [1 \<mapsto> 5]"
    by (simp_all add: one_chat_def texture_session_def session_of_def)
  have failing: "prompt_built failing_generation \<and> hairstyles_listed failing_generation"
    "apply_hairstyle failing_generation \<in> {Exception, Ok None, Ok (Some [])}"
    by (simp_all add: failing_generation_def)
  have working: "prompt_built working_generation \<and> hairstyles_listed working_generation"
    "apply_hairstyle working_generation = Ok (Some [7, 8, 9])"
    by (simp_all add: working_generation_def)
  have charge: "accounts (fst (use_credit 1 2 (one_chat texture_session 5))) = [1 \<mapsto> 3]"
    "get_user_credits (fst (use_credit 1 2 (one_chat texture_session 5))) 1 = 3"
    by (simp_all add: use_credit_def get_user_credits_def update_user_credits_def one_chat_def)
  have absent: "user_data empty_bot 1 = None"
    by (simp add: empty_bot_def)
  have different: "[1 \<mapsto> (3::int)] \<noteq> [(1::int) \<mapsto> 5]"
    by (simp add: fun_eq_iff)
  have h_success: "user_data (one_chat texture_session 5) 1 \<noteq> None \<and> selected_hairstyle (session_of (one_chat texture_session 5) 1) \<noteq> None \<and>
    prompt_built working_generation \<and> session_of (one_chat texture_session 5) 1 ''image_data'' \<noteq> None \<and>
    session_of (one_chat texture_session 5) 1 ''face_shape'' \<noteq> None \<and> hairstyles_listed working_generation \<and>
    as_index (py_get (session_of (one_chat texture_session 5) 1) ''selected_hairstyle_index'') \<noteq> None \<and>
    apply_hairstyle working_generation = Ok (Some [7, 8, 9]) \<and> [7, 8, 9] \<noteq> ([] :: nat list)"
    using ready working by simp
  have w_success: "snd (generate_hairstyle working_generation 1 (one_chat texture_session 5)) = Returned \<and>
    sent (fst (generate_hairstyle working_generation 1 (one_chat texture_session 5)))
      = [(1, HairstyleGenerating), (1, HairstylePhoto [7, 8, 9] 3)] \<and>
    accounts (fst (generate_hairstyle working_generation 1 (one_chat texture_session 5))) = [1 \<mapsto> 3]"
    using mp [OF success h_success] by (simp add: charge before)
  have h_only: "accounts (fst (generate_hairstyle working_generation 1 (one_chat texture_session 5))) \<noteq> accounts (one_chat texture_session 5)"
    using w_success different by (simp add: before)
  have w_only: "\<exists>result_image_bytes. result_image_bytes \<noteq> [] \<and>
       apply_hairstyle working_generation = Ok (Some result_image_bytes)"
    by (rule mp [OF only_after h_only])
  have w_absent: "generate_hairstyle failing_generation 1 empty_bot = (empty_bot, Raised)"
    by (rule mp [OF no_session absent])
  have h_failure: "user_data (one_chat texture_session 5) 1 \<noteq> None \<and> selected_hairstyle (session_of (one_chat texture_session 5) 1) \<noteq> None \<and>
    prompt_built failing_generation \<and> session_of (one_chat texture_session 5) 1 ''image_data'' \<noteq> None \<and>
    session_of (one_chat texture_session 5) 1 ''face_shape'' \<noteq> None \<and> hairstyles_listed failing_generation \<and>
    as_index (py_get (session_of (one_chat texture_session 5) 1) ''selected_hairstyle_index'') \<noteq> None \<and>
    apply_hairstyle failing_generation \<in> {Exception, Ok None, Ok (Some [])}"
    using ready failing by simp
  have w_failure: "snd (generate_hairstyle failing_generation 1 (one_chat texture_session 5)) = Returned \<and>
    sent (fst (generate_hairstyle failing_generation 1 (one_chat texture_session 5))) = [(1, HairstyleGenerating), (1, ErrorText)] \<and>
    accounts (fst (generate_hairstyle failing_generation 1 (one_chat texture_session 5))) = accounts (one_chat texture_session 5)"
    using mp [OF failure h_failure] by (simp add: before)
  have w_wait: "session_of (fst (generate_hairstyle failing_generation 1 (one_chat texture_session 5))) 1 ''waiting_for_hairstyle_selection''
     = Some (VBool False) \<and>
   session_of (fst (generate_hairstyle failing_generation 1 (one_chat texture_session 5))) 1 ''customization_state''
     = Some (VStr ''selecting_style'')"
    by (rule mp [OF wait_state session])
  have h_others: "user_data (one_chat texture_session 5) 1 \<noteq> None \<and>
    ''face_shape'' \<notin> {''landmarks'', ''customization_state'', ''waiting_for_hairstyle_selection''}"
    using session by simp
  have w_others: "session_of (fst (generate_hairstyle failing_generation 1 (one_chat texture_session 5))) 1 ''face_shape'' = Some (VStr ''OVAL'')"
    using mp [OF others h_others] by (simp add: before)
  show ?thesis
    using h_only w_only absent w_absent ready before(1) w_wait w_others failing w_failure
      working w_success
    by blast
qed

end
